theory Spec2Isabelle
  imports Main "HOL-Library.Multiset" "HOL-Library.List_Lexorder" "HOL-Library.Char_ord"
begin

section \<open>balpy: a shallow embedding of \<open>src/balpy/balpy.py\<close>\<close>

text \<open>
  The Python class \<open>balpy\<close> is glue code between a caller, a chain RPC client (web3) and
  a gas oracle. The embedding keeps the control flow, the dictionaries, the list indexing
  and the arithmetic on Python integers of each method. Whatever an external collaborator
  computes (a chain read, a checksum, a float operation) is a field of an environment
  record, so every theorem holds for every behaviour of the collaborators.
\<close>

subsection \<open>Exceptions and return values\<close>

text \<open>
  A raised exception is \<open>Inl\<close> of the exception; a returned value is \<open>Inr\<close>.
  Several methods return the Python value \<open>False\<close> in place of their result after
  printing an error: \<open>or_false\<close> is that union.
\<close>

datatype py_exception = TypeError | KeyError | IndexError | ValueError | OverflowError

datatype 'a or_false = PyFalse | Val 'a

text \<open>A loop whose body may raise: the first exception ends the loop.\<close>

fun foldE :: "('s \<Rightarrow> 'x \<Rightarrow> 'e + 's) \<Rightarrow> 'x list \<Rightarrow> 's \<Rightarrow> 'e + 's" where
  "foldE f [] s = Inr s"
| "foldE f (x # xs) s = (case f s x of Inl e \<Rightarrow> Inl e | Inr s' \<Rightarrow> foldE f xs s')"

text \<open>\<open>d[k]\<close> on a dictionary and \<open>xs[i]\<close> on a list with a non-negative index.\<close>

definition dict_get :: "('k \<rightharpoonup> 'v) \<Rightarrow> 'k \<Rightarrow> py_exception + 'v" where
  "dict_get d k = (case d k of None \<Rightarrow> Inl KeyError | Some v \<Rightarrow> Inr v)"

definition list_get :: "'a list \<Rightarrow> nat \<Rightarrow> py_exception + 'a" where
  "list_get xs i = (if i < length xs then Inr (xs ! i) else Inl IndexError)"

subsection \<open>The store of list objects\<close>

text \<open>
  Python lists are objects: \<open>sortedTokens = tokens\<close> makes two names for one object and
  \<open>list.sort()\<close> sorts the object in place. A list is therefore a reference into a store.
  Addresses are strings, compared as Python compares \<open>str\<close> (lexicographically by code
  point); the functions only need a linear order.
\<close>

type_synonym ref = nat
type_synonym 'a heap = "ref \<Rightarrow> 'a list"

definition list_sort :: "ref \<Rightarrow> ('a::linorder) heap \<Rightarrow> 'a heap" where
  "list_sort r h = h(r := sort (h r))"

subsection \<open>\<open>balSortTokens\<close> and \<open>balReorderTokenDicts\<close>\<close>

text \<open>
  \<^verbatim>\<open>
  def balSortTokens(self, tokensIn):
      tokensIn.sort();
      checksumTokens = [self.web3.toChecksumAddress(t) for t in tokensIn];
      return(tokensIn, checksumTokens);
  \<close>
  The checksum function belongs to web3 and is a parameter. The first component of the
  result is the caller's own list object.
\<close>

definition balSortTokens ::
  "('a \<Rightarrow> 'a) \<Rightarrow> ref \<Rightarrow> ('a::linorder) heap \<Rightarrow> (ref \<times> 'a list) \<times> 'a heap" where
  "balSortTokens toChecksumAddress tokensIn h =
     (let h1 = list_sort tokensIn h;
          checksumTokens = map toChecksumAddress (h1 tokensIn)
      in ((tokensIn, checksumTokens), h1))"

text \<open>
  \<^verbatim>\<open>
  def balReorderTokenDicts(self, tokens):
      originalIdxToSortedIdx = {};
      sortedIdxToOriginalIdx = {};
      tokenAddressToIdx = {};
      for i in range(len(tokens)):
          tokenAddressToIdx[tokens[i]] = i;
      sortedTokens = tokens;
      sortedTokens.sort();
      for i in range(len(sortedTokens)):
          originalIdxToSortedIdx[tokenAddressToIdx[sortedTokens[i]]] = i;
          sortedIdxToOriginalIdx[i] = tokenAddressToIdx[sortedTokens[i]];
      return(sortedTokens, originalIdxToSortedIdx, sortedIdxToOriginalIdx);
  \<close>
\<close>

definition tokenAddressToIdx_body :: "'a list \<Rightarrow> ('a \<rightharpoonup> nat) \<Rightarrow> nat \<Rightarrow> ('a \<rightharpoonup> nat)" where
  "tokenAddressToIdx_body tokens d i = d(tokens ! i \<mapsto> i)"

definition tokenAddressToIdx_loop :: "'a list \<Rightarrow> ('a \<rightharpoonup> nat)" where
  "tokenAddressToIdx_loop tokens =
     foldl (tokenAddressToIdx_body tokens) Map.empty [0..<length tokens]"

definition reorder_body ::
  "('a \<rightharpoonup> nat) \<Rightarrow> 'a list \<Rightarrow> (nat \<rightharpoonup> nat) \<times> (nat \<rightharpoonup> nat) \<Rightarrow> nat
     \<Rightarrow> py_exception + ((nat \<rightharpoonup> nat) \<times> (nat \<rightharpoonup> nat))" where
  "reorder_body tokenAddressToIdx sortedTokens maps i =
     (case maps of (originalIdxToSortedIdx, sortedIdxToOriginalIdx) \<Rightarrow>
        (case dict_get tokenAddressToIdx (sortedTokens ! i) of
           Inl e \<Rightarrow> Inl e
         | Inr j \<Rightarrow> Inr (originalIdxToSortedIdx(j \<mapsto> i), sortedIdxToOriginalIdx(i \<mapsto> j))))"

definition balReorderTokenDicts ::
  "ref \<Rightarrow> ('a::linorder) heap
     \<Rightarrow> (py_exception + (ref \<times> (nat \<rightharpoonup> nat) \<times> (nat \<rightharpoonup> nat))) \<times> 'a heap" where
  "balReorderTokenDicts tokens h =
     (let tokenAddressToIdx = tokenAddressToIdx_loop (h tokens);
          sortedTokens = tokens;
          h1 = list_sort sortedTokens h
      in (case foldE (reorder_body tokenAddressToIdx (h1 sortedTokens))
                 [0..<length (h1 sortedTokens)] (Map.empty, Map.empty) of
            Inl e \<Rightarrow> (Inl e, h1)
          | Inr (originalIdxToSortedIdx, sortedIdxToOriginalIdx) \<Rightarrow>
              (Inr (sortedTokens, originalIdxToSortedIdx, sortedIdxToOriginalIdx), h1)))"

text \<open>The store in which no list object has been filled: the starting point of examples.\<close>

definition heap_empty :: "'a heap" where
  "heap_empty = (\<lambda>r. [])"

subsection \<open>Python numbers\<close>

text \<open>
  The code computes with Python floats (\<open>float(x)\<close>, \<open>x * 10**d\<close>, \<open>int(x)\<close>,
  \<open>x == 0.0\<close>) on values that come from JSON. The type of floats and the operations on
  them are parameters: a record \<open>py_float\<close> holds them, one field for each Python
  expression, and a function of the model that computes with floats takes the record as its
  first argument. \<open>'v\<close> is the type of the raw values that \<open>float(...)\<close> is applied to.
\<close>

record ('v, 'f) py_float =
  f_of :: "'v \<Rightarrow> py_exception + 'f"       \<comment> \<open>\<open>float(v)\<close>, which raises on a value that is no number\<close>
  f_zero :: "'f"                                  \<comment> \<open>\<open>0.0\<close>\<close>
  f_add :: "'f \<Rightarrow> 'f \<Rightarrow> 'f"                        \<comment> \<open>\<open>x + y\<close>\<close>
  f_eq_int :: "'f \<Rightarrow> int \<Rightarrow> bool"                  \<comment> \<open>\<open>x == k\<close> for an integer \<open>k\<close> (\<open>x == 0.0\<close> is \<open>x == 0\<close>)\<close>
  f_ge :: "'f \<Rightarrow> 'f \<Rightarrow> bool"                        \<comment> \<open>\<open>x >= y\<close>\<close>
  f_mul_pow10 :: "'f \<Rightarrow> nat \<Rightarrow> 'f"                \<comment> \<open>\<open>x * 10**d\<close>\<close>
  f_trunc :: "'f \<Rightarrow> py_exception + int"            \<comment> \<open>\<open>int(x)\<close>, which raises on an infinity or a NaN\<close>
  f_standard_units :: "nat \<Rightarrow> nat \<Rightarrow> 'f"           \<comment> \<open>\<open>raw * 10**(-d)\<close> for a raw integer amount\<close>
  f_str :: "'f \<Rightarrow> string"                       \<comment> \<open>\<open>str(x)\<close>\<close>

text \<open>\<open>int(float(v) * 10**d)\<close>: a value in standard units to raw integer units.\<close>

definition to_raw :: "('v, 'f) py_float \<Rightarrow> 'v \<Rightarrow> nat \<Rightarrow> py_exception + int" where
  "to_raw F v d = (case f_of F v of Inl e \<Rightarrow> Inl e | Inr x \<Rightarrow> f_trunc F (f_mul_pow10 F x d))"

text \<open>
  A number that is a Python \<open>int\<close> or a Python \<open>float\<close>, as a target allowance read from
  a pool description is. Integer arithmetic is exact.
\<close>

datatype 'f py_num = PyInt int | PyFloat 'f

fun num_eq_int :: "('v, 'f) py_float \<Rightarrow> 'f py_num \<Rightarrow> int \<Rightarrow> bool" where
  "num_eq_int F (PyInt a) k = (a = k)"
| "num_eq_int F (PyFloat x) k = f_eq_int F x k"

fun num_mul_pow10 :: "('v, 'f) py_float \<Rightarrow> 'f py_num \<Rightarrow> nat \<Rightarrow> 'f py_num" where
  "num_mul_pow10 F (PyInt a) d = PyInt (a * 10 ^ d)"
| "num_mul_pow10 F (PyFloat x) d = PyFloat (f_mul_pow10 F x d)"

fun num_int :: "('v, 'f) py_float \<Rightarrow> 'f py_num \<Rightarrow> py_exception + int" where
  "num_int F (PyInt a) = Inr a"
| "num_int F (PyFloat x) = f_trunc F x"

text \<open>
  An interpretation for examples: the numbers are integers, on which Python's float
  operations are exact as long as the values stay below \<open>2^53\<close>.
\<close>

definition int_float :: "(int, int) py_float" where
  "int_float = \<lparr> f_of = Inr, f_zero = 0, f_add = (+), f_eq_int = (=), f_ge = (\<ge>),
       f_mul_pow10 = (\<lambda>x d. x * 10 ^ d), f_trunc = Inr,
       f_standard_units = (\<lambda>raw d. int raw div 10 ^ d), f_str = (\<lambda>x. []) \<rparr>"

subsection \<open>\<open>ERROR\<close>\<close>

text \<open>
  \<^verbatim>\<open>
  def ERROR(self, text):
      ERROR_BEGIN = '\033[91m';
      ERROR_END = '\033[0m';
      print(ERROR_BEGIN + "[ERROR] " + text + ERROR_END);
  \<close>
  The method has one parameter besides \<open>self\<close>. A call with another number of arguments
  raises \<open>TypeError\<close> before the body runs, and so does the concatenation \<open>str + text\<close> when
  \<open>text\<close> is no string. The model takes the list of the arguments of the call.
\<close>

datatype py_arg = Str string | Num int

fun ERROR :: "py_arg list \<Rightarrow> py_exception + unit" where
  "ERROR [Str text] = Inr ()"
| "ERROR args = Inl TypeError"

subsection \<open>\<open>getTxReceipt\<close>\<close>

text \<open>
  \<^verbatim>\<open>
  def getTxReceipt(self, txHash, delay, maxRetries):
      for i in range(maxRetries):
          try:
              receipt = self.web3.eth.getTransactionReceipt(txHash);
              print("Retrieved receipt!");
              return(receipt);
          except Exception as e:
              print(e);
              print("Transaction not found yet, will check again in", delay, "seconds");
              time.sleep(delay);
      self.ERROR("Transaction not found in", maxRetries, "retries.");
      return(False);
  \<close>
  The chain's answer to the \<open>n\<close>-th lookup is a parameter: a receipt, or any exception.
  The state counts the lookups made and lists the sleeps taken.
\<close>

record 'd poll_state =
  lookups :: nat
  sleeps :: "'d list"

fun getTxReceipt_loop ::
  "(nat \<Rightarrow> 'h \<Rightarrow> 'e + 'r) \<Rightarrow> 'h \<Rightarrow> 'd \<Rightarrow> nat list \<Rightarrow> 'd poll_state \<Rightarrow> 'r option \<times> 'd poll_state" where
  "getTxReceipt_loop getTransactionReceipt txHash delay [] s = (None, s)"
| "getTxReceipt_loop getTransactionReceipt txHash delay (i # rest) s =
     (case getTransactionReceipt (lookups s) txHash of
        Inr receipt \<Rightarrow> (Some receipt, s\<lparr>lookups := Suc (lookups s)\<rparr>)
      | Inl e \<Rightarrow>
          getTxReceipt_loop getTransactionReceipt txHash delay rest
            (s\<lparr>lookups := Suc (lookups s), sleeps := sleeps s @ [delay]\<rparr>))"

definition getTxReceipt ::
  "(nat \<Rightarrow> 'h \<Rightarrow> 'e + 'r) \<Rightarrow> 'h \<Rightarrow> 'd \<Rightarrow> int \<Rightarrow> 'd poll_state
     \<Rightarrow> (py_exception + 'r or_false) \<times> 'd poll_state" where
  "getTxReceipt getTransactionReceipt txHash delay maxRetries s =
     (case getTxReceipt_loop getTransactionReceipt txHash delay [0..<nat maxRetries] s of
        (Some receipt, s') \<Rightarrow> (Inr (Val receipt), s')
      | (None, s') \<Rightarrow>
          (case ERROR [Str ''Transaction not found in'', Num maxRetries, Str ''retries.''] of
             Inl e \<Rightarrow> (Inl e, s')
           | Inr u \<Rightarrow> (Inr PyFalse, s')))"

subsection \<open>\<open>getGasPriceEtherscanGwei\<close>\<close>

text \<open>
  \<^verbatim>\<open>
  etherscanSpeedDict = {
      "slow":"SafeGasPrice",
      "average":"ProposeGasPrice",
      "fast":"FastGasPrice"
  };

  def getGasPriceEtherscanGwei(self, speed):
      dt = (time.time() - self.lastEtherscanCallTime);
      if dt < 1.0/self.etherscanMaxRate:
          time.sleep((1.0/self.etherscanMaxRate - dt) * 1.1);
      if not speed in self.etherscanSpeedDict.keys():
          print("[ERROR] Speed entered is:", speed);
          print("\tSpeed must be 'slow', 'average', or 'fast'");
          return(False);
      response = requests.get("https://api.etherscan.io/api?..." + self.etherscanApiKey);
      self.lastEtherscanCallTime = time.time();
      return(response.json()["result"][self.etherscanSpeedDict[speed]]);
  \<close>
  The clock, the float arithmetic of the rate limit and the oracle are parameters:
  \<open>time_time n\<close> is the \<open>n\<close>-th reading of the clock, \<open>throttle now last\<close> is the time to
  sleep when \<open>now - last < 1.0/etherscanMaxRate\<close>, \<open>requests_get n\<close> is the response to
  the \<open>n\<close>-th request and \<open>json_result\<close> reads a field of its \<open>"result"\<close> object.
\<close>

definition etherscanSpeedDict :: "string \<rightharpoonup> string" where
  "etherscanSpeedDict =
     [''slow'' \<mapsto> ''SafeGasPrice'', ''average'' \<mapsto> ''ProposeGasPrice'', ''fast'' \<mapsto> ''FastGasPrice'']"

record ('t, 'resp, 'p) gas_env =
  time_time :: "nat \<Rightarrow> 't"
  throttle :: "'t \<Rightarrow> 't \<Rightarrow> 't option"
  requests_get :: "nat \<Rightarrow> py_exception + 'resp"
  json_result :: "'resp \<Rightarrow> string \<Rightarrow> py_exception + 'p"

record 't gas_state =
  lastEtherscanCallTime :: 't
  clockReads :: nat
  gasSleeps :: "'t list"
  requests :: nat

definition getGasPriceEtherscanGwei ::
  "('t, 'resp, 'p) gas_env \<Rightarrow> string \<Rightarrow> 't gas_state
     \<Rightarrow> (py_exception + 'p or_false) \<times> 't gas_state" where
  "getGasPriceEtherscanGwei G speed s =
     (let now = time_time G (clockReads s);
          s1 = s\<lparr>clockReads := Suc (clockReads s)\<rparr>;
          s2 = (case throttle G now (lastEtherscanCallTime s1) of
                  None \<Rightarrow> s1
                | Some d \<Rightarrow> s1\<lparr>gasSleeps := gasSleeps s1 @ [d]\<rparr>)
      in if speed \<notin> dom etherscanSpeedDict then (Inr PyFalse, s2)
         else
           (case requests_get G (requests s2) of
              Inl e \<Rightarrow> (Inl e, s2\<lparr>requests := Suc (requests s2)\<rparr>)
            | Inr response \<Rightarrow>
                (let s3 = s2\<lparr>requests := Suc (requests s2),
                             lastEtherscanCallTime := time_time G (clockReads s2),
                             clockReads := Suc (clockReads s2)\<rparr>
                 in (case dict_get etherscanSpeedDict speed of
                       Inl e \<Rightarrow> (Inl e, s3)
                     | Inr field \<Rightarrow>
                         (case json_result G response field of
                            Inl e \<Rightarrow> (Inl e, s3)
                          | Inr price \<Rightarrow> (Inr (Val price), s3))))))"

subsection \<open>Constants of the class\<close>

type_synonym address = string

definition VAULT :: address where
  "VAULT = ''0xBA12222222228d8Ba445958a75a0704d566BF2C8''"

definition ZERO_ADDRESS :: address where
  "ZERO_ADDRESS = ''0x0000000000000000000000000000000000000000''"

definition INFINITE :: int where
  "INFINITE = 2 ^ 256 - 1"

subsection \<open>The chain and the state of a session\<close>

text \<open>
  What the RPC client and web3 answer is a parameter. A read of the chain's state may
  give another answer each time it is made, so a read takes the number of reads made
  before it. The number of decimals of a token and the hash of a signed transaction are
  fixed. The RPC transport is taken to answer every call.
\<close>

record approve_call =
  ac_token :: address
  ac_spender :: address
  ac_allowance :: int

record tx =
  tx_call :: approve_call
  tx_nonce :: int
  tx_gas :: int
  tx_gasPriceGwei :: int

record chain =
  rpc_decimals :: "address \<Rightarrow> nat"                  \<comment> \<open>\<open>token.functions.decimals().call()\<close>\<close>
  rpc_allowance :: "nat \<Rightarrow> address \<Rightarrow> address \<Rightarrow> nat"  \<comment> \<open>\<open>token.functions.allowance(self.address, spender).call()\<close>\<close>
  rpc_balance :: "nat \<Rightarrow> address \<Rightarrow> nat"            \<comment> \<open>\<open>token.functions.balanceOf(self.address).call()\<close>\<close>
  rpc_transaction_count :: "nat \<Rightarrow> nat"             \<comment> \<open>\<open>web3.eth.get_transaction_count(default_account)\<close>\<close>
  gas_estimate :: "approve_call \<Rightarrow> int"              \<comment> \<open>\<open>int(fn.estimateGas() * gasFactor)\<close>\<close>
  gas_price :: "nat \<Rightarrow> int"                          \<comment> \<open>\<open>self.getGasPriceEtherscanGwei(gasSpeed)\<close>\<close>
  tx_hash :: "tx \<Rightarrow> string"                          \<comment> \<open>\<open>send_raw_transaction(sign(tx)).hex()\<close>\<close>
  web3_toChecksumAddress :: "address \<Rightarrow> address"

text \<open>
  The state: the store of list objects, the class-level cache \<open>self.decimals\<close>, the
  number of reads of the chain made so far, the number of those that asked for the
  transaction count, the transactions broadcast and the hashes waited for, both in order.
\<close>

record world =
  heap :: "address heap"
  decimalsCache :: "address \<rightharpoonup> nat"
  clock :: nat
  nonceFetches :: nat
  sent :: "tx list"
  waited :: "string list"

text \<open>A loop whose body changes the state and may raise; the state survives the exception.\<close>

fun foldSE ::
  "('acc \<Rightarrow> 'x \<Rightarrow> 'w \<Rightarrow> ('e + 'acc) \<times> 'w) \<Rightarrow> 'x list \<Rightarrow> 'acc \<Rightarrow> 'w \<Rightarrow> ('e + 'acc) \<times> 'w" where
  "foldSE f [] acc w = (Inr acc, w)"
| "foldSE f (x # xs) acc w =
     (case f acc x w of
        (Inl e, w') \<Rightarrow> (Inl e, w')
      | (Inr acc', w') \<Rightarrow> foldSE f xs acc' w')"

subsection \<open>Transactions\<close>

text \<open>
  \<^verbatim>\<open>
  def buildTx(self, fn, gasFactor, gasSpeed="average", nonceOverride=-1,
              gasEstimateOverride=-1, gasPriceGweiOverride=-1):
      if nonceOverride > -1: nonce = nonceOverride;
      else: nonce = self.web3.eth.get_transaction_count(self.web3.eth.default_account)
      if gasEstimateOverride > -1: gasEstimate = gasEstimateOverride;
      else: gasEstimate = int(fn.estimateGas() * gasFactor);
      if gasPriceGweiOverride > -1: gasPriceGwei = gasPriceGweiOverride;
      else:
          if not chainIdNetwork == 1: gasPriceGwei = 5; pass;
          gasPriceGwei = self.getGasPriceEtherscanGwei(gasSpeed);
      data = fn.buildTransaction({'chainId': ..., 'gas': gasEstimate,
                                  'gasPrice': self.web3.toWei(gasPriceGwei, 'gwei'), 'nonce': nonce});
      return(data);
  \<close>
  \<open>gasFactor\<close> and \<open>gasSpeed\<close> only feed the gas estimate and the gas oracle, which are
  fields of \<open>chain\<close>, and are left out of the arguments.
\<close>

definition buildTx :: "chain \<Rightarrow> approve_call \<Rightarrow> int \<Rightarrow> int \<Rightarrow> int \<Rightarrow> world \<Rightarrow> tx \<times> world" where
  "buildTx C fn nonceOverride gasEstimateOverride gasPriceGweiOverride s =
     (let (nonce, s1) =
            (if nonceOverride > - 1 then (nonceOverride, s)
             else (int (rpc_transaction_count C (clock s)),
                   s\<lparr>clock := Suc (clock s), nonceFetches := Suc (nonceFetches s)\<rparr>));
          gasEstimate =
            (if gasEstimateOverride > - 1 then gasEstimateOverride else gas_estimate C fn);
          gasPriceGwei =
            (if gasPriceGweiOverride > - 1 then gasPriceGweiOverride else gas_price C (clock s1))
      in (\<lparr>tx_call = fn, tx_nonce = nonce, tx_gas = gasEstimate, tx_gasPriceGwei = gasPriceGwei\<rparr>,
          s1))"

text \<open>
  \<^verbatim>\<open>
  def waitForTx(self, txHash, timeOutSec=120):
      self.web3.eth.wait_for_transaction_receipt(txHash);
      return(True);

  def sendTx(self, tx, isAsync=False):
      signedTx = self.web3.eth.account.sign_transaction(tx, self.privateKey);
      txHash = self.web3.eth.send_raw_transaction(signedTx.rawTransaction).hex();
      if not isAsync:
          self.waitForTx(txHash);
      return(txHash);
  \<close>
\<close>

definition waitForTx :: "string \<Rightarrow> world \<Rightarrow> bool \<times> world" where
  "waitForTx txHash s = (True, s\<lparr>waited := waited s @ [txHash]\<rparr>)"

definition sendTx :: "chain \<Rightarrow> tx \<Rightarrow> bool \<Rightarrow> world \<Rightarrow> string \<times> world" where
  "sendTx C t isAsync s =
     (let txHash = tx_hash C t;
          s1 = s\<lparr>sent := sent s @ [t]\<rparr>;
          s2 = (if \<not> isAsync then snd (waitForTx txHash s1) else s1)
      in (txHash, s2))"

subsection \<open>ERC20 methods\<close>

text \<open>
  \<^verbatim>\<open>
  def erc20GetDecimals(self, tokenAddress):
      if tokenAddress in self.decimals.keys():
          return(self.decimals[tokenAddress]);
      token = self.erc20GetContract(tokenAddress);
      decimals = token.functions.decimals().call();
      self.decimals[tokenAddress] = decimals;
      return(decimals);

  def erc20GetBalanceStandard(self, tokenAddress):
      decimals = self.erc20GetDecimals(tokenAddress);
      standardBalance = token.functions.balanceOf(self.address).call() * 10**(-decimals);
      return(standardBalance);

  def erc20GetAllowanceStandard(self, tokenAddress, allowedAddress):
      decimals = self.erc20GetDecimals(tokenAddress);
      standardAllowance = token.functions.allowance(self.address,allowedAddress).call() * 10**(-decimals);
      return(standardAllowance);
  \<close>
  \<open>erc20GetContract\<close> builds the contract handle of a token and caches it; the handle
  only names the token that a call is made on, so the token address stands for it.
\<close>

definition erc20GetDecimals :: "chain \<Rightarrow> address \<Rightarrow> world \<Rightarrow> nat \<times> world" where
  "erc20GetDecimals C tokenAddress s =
     (case decimalsCache s tokenAddress of
        Some d \<Rightarrow> (d, s)
      | None \<Rightarrow>
          (let decimals = rpc_decimals C tokenAddress
           in (decimals, s\<lparr>decimalsCache := (decimalsCache s)(tokenAddress \<mapsto> decimals)\<rparr>)))"

definition erc20GetBalanceStandard ::
  "chain \<Rightarrow> ('v, 'f) py_float \<Rightarrow> address \<Rightarrow> world \<Rightarrow> 'f \<times> world" where
  "erc20GetBalanceStandard C F tokenAddress s =
     (let (decimals, s1) = erc20GetDecimals C tokenAddress s;
          raw = rpc_balance C (clock s1) tokenAddress
      in (f_standard_units F raw decimals, s1\<lparr>clock := Suc (clock s1)\<rparr>))"

definition erc20GetAllowanceStandard ::
  "chain \<Rightarrow> ('v, 'f) py_float \<Rightarrow> address \<Rightarrow> address \<Rightarrow> world \<Rightarrow> 'f \<times> world" where
  "erc20GetAllowanceStandard C F tokenAddress allowedAddress s =
     (let (decimals, s1) = erc20GetDecimals C tokenAddress s;
          raw = rpc_allowance C (clock s1) tokenAddress allowedAddress
      in (f_standard_units F raw decimals, s1\<lparr>clock := Suc (clock s1)\<rparr>))"

text \<open>
  \<^verbatim>\<open>
  def erc20BuildFunctionSetAllowance(self, tokenAddress, allowedAddress, allowance):
      token = self.erc20GetContract(tokenAddress);
      approveFunction = token.functions.approve(allowedAddress, allowance);
      return(approveFunction);

  def erc20SignAndSendNewAllowance(self, tokenAddress, allowedAddress, allowance, gasFactor,
          gasSpeed, nonceOverride=-1, gasEstimateOverride=-1, gasPriceGweiOverride=-1,
          isAsync=False):
      fn = self.erc20BuildFunctionSetAllowance(tokenAddress, allowedAddress, allowance);
      tx = self.buildTx(fn, gasFactor, gasSpeed, nonceOverride, gasEstimateOverride, gasPriceGweiOverride);
      txHash = self.sendTx(tx, isAsync);
      return(txHash);
  \<close>
\<close>

definition erc20BuildFunctionSetAllowance :: "address \<Rightarrow> address \<Rightarrow> int \<Rightarrow> approve_call" where
  "erc20BuildFunctionSetAllowance tokenAddress allowedAddress allowance =
     \<lparr>ac_token = tokenAddress, ac_spender = allowedAddress, ac_allowance = allowance\<rparr>"

definition erc20SignAndSendNewAllowance ::
  "chain \<Rightarrow> address \<Rightarrow> address \<Rightarrow> int \<Rightarrow> int \<Rightarrow> int \<Rightarrow> int \<Rightarrow> bool \<Rightarrow> world \<Rightarrow> string \<times> world" where
  "erc20SignAndSendNewAllowance C tokenAddress allowedAddress allowance
       nonceOverride gasEstimateOverride gasPriceGweiOverride isAsync s =
     (let fn = erc20BuildFunctionSetAllowance tokenAddress allowedAddress allowance;
          (t, s1) = buildTx C fn nonceOverride gasEstimateOverride gasPriceGweiOverride s
      in sendTx C t isAsync s1)"

text \<open>
  \<^verbatim>\<open>
  def erc20HasSufficientAllowance(self, tokenAddress, allowedAddress, amount):
      currentAllowance = self.erc20GetAllowanceStandard(tokenAddress, allowedAddress);
      balance = self.erc20GetBalanceStandard(tokenAddress);
      sufficient = (currentAllowance >= amount);
      return(sufficient);
  \<close>
\<close>

definition erc20HasSufficientAllowance ::
  "chain \<Rightarrow> ('v, 'f) py_float \<Rightarrow> address \<Rightarrow> address \<Rightarrow> 'f \<Rightarrow> world \<Rightarrow> bool \<times> world" where
  "erc20HasSufficientAllowance C F tokenAddress allowedAddress amount s =
     (let (currentAllowance, s1) = erc20GetAllowanceStandard C F tokenAddress allowedAddress s;
          (balance, s2) = erc20GetBalanceStandard C F tokenAddress s1;
          sufficient = f_ge F currentAllowance amount
      in (sufficient, s2))"

text \<open>
  \<^verbatim>\<open>
  def erc20EnforceSufficientAllowance(self, tokenAddress, allowedAddress, targetAllowance,
          amount, gasFactor, gasSpeed, nonceOverride, gasEstimateOverride,
          gasPriceGweiOverride, isAsync):
      if not self.erc20HasSufficientAllowance(tokenAddress, allowedAddress, amount):
          if targetAllowance == -1 or targetAllowance == self.INFINITE:
              targetAllowance = self.INFINITE;
          else:
              decimals = self.erc20GetDecimals(tokenAddress);
              targetAllowance = targetAllowance * 10**decimals;
          targetAllowance = int(targetAllowance);
          txHash = self.erc20SignAndSendNewAllowance(tokenAddress, allowedAddress, targetAllowance,
                       gasFactor, gasSpeed, nonceOverride=nonceOverride, isAsync=isAsync);
          return(txHash);
      return(None);
  \<close>
  The call of \<open>erc20SignAndSendNewAllowance\<close> passes neither gas override on, so both
  take their default \<open>-1\<close>.
\<close>

definition erc20EnforceSufficientAllowance ::
  "chain \<Rightarrow> ('v, 'f) py_float \<Rightarrow> address \<Rightarrow> address \<Rightarrow> 'f py_num \<Rightarrow> 'f \<Rightarrow> int \<Rightarrow> int \<Rightarrow> int
     \<Rightarrow> bool \<Rightarrow> world \<Rightarrow> (py_exception + string option) \<times> world" where
  "erc20EnforceSufficientAllowance C F tokenAddress allowedAddress targetAllowance amount
       nonceOverride gasEstimateOverride gasPriceGweiOverride isAsync s =
     (let (sufficient, s1) = erc20HasSufficientAllowance C F tokenAddress allowedAddress amount s
      in if \<not> sufficient then
           (let (targetAllowance1, s2) =
                  (if num_eq_int F targetAllowance (- 1) \<or> num_eq_int F targetAllowance INFINITE
                   then (PyInt INFINITE, s1)
                   else (let (decimals, s') = erc20GetDecimals C tokenAddress s1
                         in (num_mul_pow10 F targetAllowance decimals, s')))
            in (case num_int F targetAllowance1 of
                  Inl e \<Rightarrow> (Inl e, s2)
                | Inr targetAllowance2 \<Rightarrow>
                    (let (txHash, s3) =
                           erc20SignAndSendNewAllowance C tokenAddress allowedAddress
                             targetAllowance2 nonceOverride (- 1) (- 1) isAsync s2
                     in (Inr (Some txHash), s3))))
         else (Inr None, s1))"

text \<open>
  \<^verbatim>\<open>
  def erc20EnforceSufficientVaultAllowance(self, tokenAddress, targetAllowance, amount, gasFactor,
          gasSpeed, nonceOverride=-1, gasEstimateOverride=-1, gasPriceGweiOverride=-1, isAsync=False):
      return(self.erc20EnforceSufficientAllowance(tokenAddress, self.VAULT, targetAllowance, amount,
          gasFactor, gasSpeed, nonceOverride, gasEstimateOverride, gasPriceGweiOverride, isAsync));
  \<close>
\<close>

definition erc20EnforceSufficientVaultAllowance ::
  "chain \<Rightarrow> ('v, 'f) py_float \<Rightarrow> address \<Rightarrow> 'f py_num \<Rightarrow> 'f \<Rightarrow> int \<Rightarrow> int \<Rightarrow> int
     \<Rightarrow> bool \<Rightarrow> world \<Rightarrow> (py_exception + string option) \<times> world" where
  "erc20EnforceSufficientVaultAllowance C F tokenAddress targetAllowance amount
       nonceOverride gasEstimateOverride gasPriceGweiOverride isAsync s =
     erc20EnforceSufficientAllowance C F tokenAddress VAULT targetAllowance amount
       nonceOverride gasEstimateOverride gasPriceGweiOverride isAsync s"

text \<open>
  \<^verbatim>\<open>
  def erc20AsyncEnforceSufficientVaultAllowances(self, tokens, targetAllowances, amounts, gasFactor,
          gasSpeed, nonceOverride=-1, gasEstimateOverride=-1, gasPriceGweiOverride=-1):
      if not len(tokens) == len(targetAllowances):
          self.ERROR("Array length mismatch with " + str(len(tokens)) + " tokens and "
                     + str(len(targetAllowances)) + " targetAllowances.");
          return(False);
      nonce = self.web3.eth.get_transaction_count(self.web3.eth.default_account);
      txHashes = [];
      numElements = len(tokens);
      for i in range(numElements):
          token = tokens[i];
          targetAllowance = targetAllowances[i];
          amount = amounts[i];
          txHash = self.erc20EnforceSufficientVaultAllowance(token, targetAllowance, amount,
                       gasFactor, gasSpeed, nonceOverride=nonce, isAsync=True);
          if not txHash is None:
              txHashes.append(txHash);
              nonce += 1;
      for txHash in txHashes:
          self.waitForTx(txHash)
      return(True)
  \<close>
  The error message is one string, built by concatenation; its text does not matter here.
\<close>

definition enforce_body ::
  "chain \<Rightarrow> ('v, 'f) py_float \<Rightarrow> address list \<Rightarrow> 'f py_num list \<Rightarrow> 'f list
     \<Rightarrow> string list \<times> int \<Rightarrow> nat \<Rightarrow> world \<Rightarrow> (py_exception + string list \<times> int) \<times> world" where
  "enforce_body C F tokens targetAllowances amounts acc i s =
     (case acc of (txHashes, nonce) \<Rightarrow>
        (case list_get tokens i of
           Inl e \<Rightarrow> (Inl e, s)
         | Inr token \<Rightarrow>
             (case list_get targetAllowances i of
                Inl e \<Rightarrow> (Inl e, s)
              | Inr targetAllowance \<Rightarrow>
                  (case list_get amounts i of
                     Inl e \<Rightarrow> (Inl e, s)
                   | Inr amount \<Rightarrow>
                       (case erc20EnforceSufficientVaultAllowance C F token targetAllowance
                               amount nonce (- 1) (- 1) True s of
                          (Inl e, s') \<Rightarrow> (Inl e, s')
                        | (Inr None, s') \<Rightarrow> (Inr (txHashes, nonce), s')
                        | (Inr (Some txHash), s') \<Rightarrow>
                            (Inr (txHashes @ [txHash], nonce + 1), s'))))))"

definition erc20AsyncEnforceSufficientVaultAllowances ::
  "chain \<Rightarrow> ('v, 'f) py_float \<Rightarrow> address list \<Rightarrow> 'f py_num list \<Rightarrow> 'f list \<Rightarrow> world
     \<Rightarrow> (py_exception + bool) \<times> world" where
  "erc20AsyncEnforceSufficientVaultAllowances C F tokens targetAllowances amounts s =
     (if \<not> length tokens = length targetAllowances then
        (case ERROR [Str ''Array length mismatch''] of
           Inl e \<Rightarrow> (Inl e, s)
         | Inr u \<Rightarrow> (Inr False, s))
      else
        (let nonce = int (rpc_transaction_count C (clock s));
             s1 = s\<lparr>clock := Suc (clock s), nonceFetches := Suc (nonceFetches s)\<rparr>;
             numElements = length tokens
         in (case foldSE (enforce_body C F tokens targetAllowances amounts)
                    [0..<numElements] ([], nonce) s1 of
               (Inl e, s2) \<Rightarrow> (Inl e, s2)
             | (Inr (txHashes, nonce'), s2) \<Rightarrow>
                 (Inr True, foldl (\<lambda>w txHash. snd (waitForTx txHash w)) s2 txHashes))))"

subsection \<open>Batch swaps\<close>

text \<open>
  The swap description is the dictionary read from JSON. Its \<open>"assets"\<close> entry is a list
  object, so the record holds a reference to it. \<open>int(swap["assetInIndex"])\<close> and the
  other \<open>int(...)\<close> of an entry are the entry itself for an entry that is an integer.
\<close>

record 'v swap_step =
  st_poolId :: string
  st_assetInIndex :: int
  st_assetOutIndex :: int
  st_amount :: 'v

record funds =
  fd_sender :: address
  fd_fromInternalBalance :: bool
  fd_recipient :: address
  fd_toInternalBalance :: bool

record 'v swapDescription =
  sd_kind :: int
  sd_assets :: ref
  sd_swaps :: "'v swap_step list"
  sd_limits :: "'v list"
  sd_funds :: funds
  sd_deadline :: int

text \<open>The arguments of \<open>vault.functions.batchSwap\<close>, in its order.\<close>

record batchSwap_call =
  bs_kind :: int
  bs_swaps :: "(string \<times> nat \<times> nat \<times> int \<times> nat list) list"
  bs_assets :: "address list"
  bs_funds :: "address \<times> bool \<times> address \<times> bool"
  bs_limits :: "int list"
  bs_deadline :: int

text \<open>
  \<^verbatim>\<open>
  def balSwapIsFlashSwap(self, swapDescription):
      for amount in swapDescription["limits"]:
          if not float(amount) == 0.0:
              return(False);
      return(True);
  \<close>
\<close>

fun balSwapIsFlashSwap_loop :: "('v, 'f) py_float \<Rightarrow> 'v list \<Rightarrow> py_exception + bool" where
  "balSwapIsFlashSwap_loop F [] = Inr True"
| "balSwapIsFlashSwap_loop F (amount # rest) =
     (case f_of F amount of
        Inl e \<Rightarrow> Inl e
      | Inr x \<Rightarrow> if \<not> f_eq_int F x 0 then Inr False else balSwapIsFlashSwap_loop F rest)"

definition balSwapIsFlashSwap :: "('v, 'f) py_float \<Rightarrow> 'v swapDescription \<Rightarrow> py_exception + bool" where
  "balSwapIsFlashSwap F swapDescription = balSwapIsFlashSwap_loop F (sd_limits swapDescription)"

text \<open>
  \<^verbatim>\<open>
  def balSwapGetUserData(self, poolType):
      userDataNull = eth_abi.encode_abi(['uint256'], [0]);
      userData = userDataNull;
      return(userData);
  \<close>
  The ABI encoding of the \<open>uint256\<close> zero is 32 zero bytes.
\<close>

definition balSwapGetUserData :: "nat list" where
  "balSwapGetUserData = replicate 32 0"

text \<open>A dictionary with integer keys from \<open>range\<close>, read at a Python integer.\<close>

definition dict_get_int :: "(nat \<rightharpoonup> 'v) \<Rightarrow> int \<Rightarrow> py_exception + 'v" where
  "dict_get_int d k = (if k < 0 then Inl KeyError else dict_get d (nat k))"

text \<open>
  \<^verbatim>\<open>
  def balCreateFnBatchSwap(self, swapDescription):
      (sortedTokens, originalIdxToSortedIdx, sortedIdxToOriginalIdx) =
          self.balReorderTokenDicts(swapDescription["assets"]);
      numTokens = len(sortedTokens);
      reorderedLimits = [];
      for i in range(numTokens):
          currLimitStandard = float(swapDescription["limits"][sortedIdxToOriginalIdx[i]]);
          decimals = self.erc20GetDecimals(sortedTokens[i]);
          currLimitRaw = int(currLimitStandard * 10**(decimals))
          reorderedLimits.append(currLimitRaw)
      kind = int(swapDescription["kind"]);
      assets = [self.web3.toChecksumAddress(token) for token in sortedTokens];
      swapsTuples = [];
      for swap in swapDescription["swaps"]:
          idxSortedIn = originalIdxToSortedIdx[int(swap["assetInIndex"])];
          idxSortedOut = originalIdxToSortedIdx[int(swap["assetOutIndex"])];
          decimals = self.erc20GetDecimals(sortedTokens[idxSortedIn]);
          amount = int( float(swap["amount"]) * 10**(decimals) );
          swapsTuple = (swap["poolId"], idxSortedIn, idxSortedOut, amount,
                        self.balSwapGetUserData(None));
          swapsTuples.append(swapsTuple);
      funds = (self.web3.toChecksumAddress(swapDescription["funds"]["sender"]),
               swapDescription["funds"]["fromInternalBalance"],
               self.web3.toChecksumAddress(swapDescription["funds"]["recipient"]),
               swapDescription["funds"]["toInternalBalance"]);
      intReorderedLimits = [int(element) for element in reorderedLimits];
      deadline = int(swapDescription["deadline"]);
      batchSwapFunction = vault.functions.batchSwap(kind, swapsTuples, assets, funds,
                                                    intReorderedLimits, deadline);
      return(batchSwapFunction);
  \<close>
\<close>

definition limits_body ::
  "chain \<Rightarrow> ('v, 'f) py_float \<Rightarrow> 'v list \<Rightarrow> (nat \<rightharpoonup> nat) \<Rightarrow> ref
     \<Rightarrow> int list \<Rightarrow> nat \<Rightarrow> world \<Rightarrow> (py_exception + int list) \<times> world" where
  "limits_body C F limits sortedIdxToOriginalIdx sortedTokens reorderedLimits i s =
     (case dict_get sortedIdxToOriginalIdx i of
        Inl e \<Rightarrow> (Inl e, s)
      | Inr j \<Rightarrow>
          (case list_get limits j of
             Inl e \<Rightarrow> (Inl e, s)
           | Inr v \<Rightarrow>
               (case f_of F v of
                  Inl e \<Rightarrow> (Inl e, s)
                | Inr currLimitStandard \<Rightarrow>
                    (case list_get (heap s sortedTokens) i of
                       Inl e \<Rightarrow> (Inl e, s)
                     | Inr token \<Rightarrow>
                         (let (decimals, s1) = erc20GetDecimals C token s
                          in (case f_trunc F (f_mul_pow10 F currLimitStandard decimals) of
                                Inl e \<Rightarrow> (Inl e, s1)
                              | Inr currLimitRaw \<Rightarrow> (Inr (reorderedLimits @ [currLimitRaw]), s1)))))))"

definition swaps_body ::
  "chain \<Rightarrow> ('v, 'f) py_float \<Rightarrow> (nat \<rightharpoonup> nat) \<Rightarrow> ref
     \<Rightarrow> (string \<times> nat \<times> nat \<times> int \<times> nat list) list \<Rightarrow> 'v swap_step \<Rightarrow> world
     \<Rightarrow> (py_exception + (string \<times> nat \<times> nat \<times> int \<times> nat list) list) \<times> world" where
  "swaps_body C F originalIdxToSortedIdx sortedTokens swapsTuples swap s =
     (case dict_get_int originalIdxToSortedIdx (st_assetInIndex swap) of
        Inl e \<Rightarrow> (Inl e, s)
      | Inr idxSortedIn \<Rightarrow>
          (case dict_get_int originalIdxToSortedIdx (st_assetOutIndex swap) of
             Inl e \<Rightarrow> (Inl e, s)
           | Inr idxSortedOut \<Rightarrow>
               (case list_get (heap s sortedTokens) idxSortedIn of
                  Inl e \<Rightarrow> (Inl e, s)
                | Inr token \<Rightarrow>
                    (let (decimals, s1) = erc20GetDecimals C token s
                     in (case to_raw F (st_amount swap) decimals of
                           Inl e \<Rightarrow> (Inl e, s1)
                         | Inr amount \<Rightarrow>
                             (Inr (swapsTuples @
                                [(st_poolId swap, idxSortedIn, idxSortedOut, amount,
                                  balSwapGetUserData)]), s1))))))"

definition balCreateFnBatchSwap ::
  "chain \<Rightarrow> ('v, 'f) py_float \<Rightarrow> 'v swapDescription \<Rightarrow> world
     \<Rightarrow> (py_exception + batchSwap_call) \<times> world" where
  "balCreateFnBatchSwap C F swapDescription s =
     (case balReorderTokenDicts (sd_assets swapDescription) (heap s) of
        (Inl e, h1) \<Rightarrow> (Inl e, s\<lparr>heap := h1\<rparr>)
      | (Inr (sortedTokens, originalIdxToSortedIdx, sortedIdxToOriginalIdx), h1) \<Rightarrow>
          (let s1 = s\<lparr>heap := h1\<rparr>;
               numTokens = length (heap s1 sortedTokens)
           in (case foldSE (limits_body C F (sd_limits swapDescription) sortedIdxToOriginalIdx
                              sortedTokens) [0..<numTokens] [] s1 of
                 (Inl e, s2) \<Rightarrow> (Inl e, s2)
               | (Inr reorderedLimits, s2) \<Rightarrow>
                   (let kind = sd_kind swapDescription;
                        assets = map (web3_toChecksumAddress C) (heap s2 sortedTokens)
                    in (case foldSE (swaps_body C F originalIdxToSortedIdx sortedTokens)
                               (sd_swaps swapDescription) [] s2 of
                          (Inl e, s3) \<Rightarrow> (Inl e, s3)
                        | (Inr swapsTuples, s3) \<Rightarrow>
                            (let fd = sd_funds swapDescription;
                                 funds = (web3_toChecksumAddress C (fd_sender fd),
                                          fd_fromInternalBalance fd,
                                          web3_toChecksumAddress C (fd_recipient fd),
                                          fd_toInternalBalance fd);
                                 intReorderedLimits = reorderedLimits;
                                 deadline = sd_deadline swapDescription
                             in (Inr \<lparr>bs_kind = kind, bs_swaps = swapsTuples, bs_assets = assets,
                                      bs_funds = funds, bs_limits = intReorderedLimits,
                                      bs_deadline = deadline\<rparr>, s3)))))))"

subsection \<open>Pool creation\<close>

text \<open>
  A pool description. \<open>poolData["tokens"]\<close> is a dictionary from token address to the
  token's entry; it is kept as the list of its items in the dictionary's order, whose
  keys are distinct. Only the weight of an entry is read here.
\<close>

datatype oracle_flag = FlagBool bool | FlagStr string

record 'f poolData =
  pd_name :: string
  pd_symbol :: string
  pd_tokens :: "(address \<times> 'f) list"
  pd_swapFeePercent :: 'f
  pd_owner :: "string option"
  pd_oracleEnabled :: "oracle_flag option"

text \<open>
  \<^verbatim>\<open>
  def balWeightsEqualOne(self, poolData):
      tokenData = poolData["tokens"];
      tokens = tokenData.keys();
      weightSum = 0.0;
      for token in tokens:
          weightSum += tokenData[token]["weight"];
      weightEqualsOne = (weightSum == 1.0)
      if not weightEqualsOne:
          self.ERROR("Token weights add up to " + str(weightSum) + ", but they must add up to 1.0");
      return(weightEqualsOne);
  \<close>
\<close>

definition weight_body ::
  "('v, 'f) py_float \<Rightarrow> (address \<times> 'f) list \<Rightarrow> 'f \<Rightarrow> address \<Rightarrow> py_exception + 'f" where
  "weight_body F tokenData weightSum token =
     (case dict_get (map_of tokenData) token of
        Inl e \<Rightarrow> Inl e
      | Inr weight \<Rightarrow> Inr (f_add F weightSum weight))"

definition balWeightsEqualOne :: "('v, 'f) py_float \<Rightarrow> 'f poolData \<Rightarrow> py_exception + bool" where
  "balWeightsEqualOne F poolData =
     (let tokenData = pd_tokens poolData;
          tokens = map fst tokenData
      in (case foldE (weight_body F tokenData) tokens (f_zero F) of
            Inl e \<Rightarrow> Inl e
          | Inr weightSum \<Rightarrow>
              (let weightEqualsOne = f_eq_int F weightSum 1
               in if \<not> weightEqualsOne then
                    (case ERROR [Str (''Token weights add up to '' @ f_str F weightSum @
                                      '', but they must add up to 1.0'')] of
                       Inl e \<Rightarrow> Inl e
                     | Inr u \<Rightarrow> Inr weightEqualsOne)
                  else Inr weightEqualsOne)))"

text \<open>
  \<^verbatim>\<open>
  def balSetOwner(self, poolData):
      owner = self.ZERO_ADDRESS;
      if "owner" in poolData.keys():
          ownerAddress = poolData["owner"];
          if not len(ownerAddress) == 42:
              self.ERROR("Entry for \"owner\" must be a 42 character Ethereum address beginning with \"0x\"");
              return(False);
          owner = self.web3.toChecksumAddress(ownerAddress);
      return(owner);
  \<close>
\<close>

definition balSetOwner :: "chain \<Rightarrow> 'f poolData \<Rightarrow> py_exception + address or_false" where
  "balSetOwner C poolData =
     (case pd_owner poolData of
        None \<Rightarrow> Inr (Val ZERO_ADDRESS)
      | Some ownerAddress \<Rightarrow>
          if \<not> length ownerAddress = 42 then
            (case ERROR [Str ''Entry for owner must be a 42 character Ethereum address beginning with 0x''] of
               Inl e \<Rightarrow> Inl e
             | Inr u \<Rightarrow> Inr PyFalse)
          else Inr (Val (web3_toChecksumAddress C ownerAddress)))"

text \<open>The arguments of \<open>factory.functions.create\<close> of the two weighted factories.\<close>

record create_call =
  cr_name :: string
  cr_symbol :: string
  cr_tokens :: "address list"
  cr_weights :: "int list"
  cr_swapFeePercentage :: int
  cr_oracleEnabled :: "bool option"
  cr_owner :: "address or_false"

text \<open>\<open>[int(poolData["tokens"][t]["weight"] * 1e18) for t in tokens]\<close>\<close>

definition weight_fixed_body ::
  "('v, 'f) py_float \<Rightarrow> (address \<times> 'f) list \<Rightarrow> int list \<Rightarrow> address \<Rightarrow> py_exception + int list" where
  "weight_fixed_body F tokenData acc t =
     (case dict_get (map_of tokenData) t of
        Inl e \<Rightarrow> Inl e
      | Inr weight \<Rightarrow>
          (case f_trunc F (f_mul_pow10 F weight 18) of
             Inl e \<Rightarrow> Inl e
           | Inr w \<Rightarrow> Inr (acc @ [w])))"

text \<open>
  \<open>list(poolData["tokens"].keys())\<close> is a new list object, which \<open>balSortTokens\<close> sorts
  in place and which nothing else refers to: it lives in a store of its own.
\<close>

definition sorted_keys :: "chain \<Rightarrow> 'f poolData \<Rightarrow> address list \<times> address list" where
  "sorted_keys C poolData =
     (case balSortTokens (web3_toChecksumAddress C) 0
             (heap_empty(0 := map fst (pd_tokens poolData))) of
        ((tokens, checksumTokens), h) \<Rightarrow> (h tokens, checksumTokens))"

text \<open>
  \<^verbatim>\<open>
  def balCreateFnWeightedPoolFactory(self, poolData):
      factory = self.balGetFactoryContract("WeightedPoolFactory");
      (tokens, checksumTokens) = self.balSortTokens(list(poolData["tokens"].keys()));
      intWithDecimalsWeights = [int(poolData["tokens"][t]["weight"] * 1e18) for t in tokens];
      swapFeePercentage = int(poolData["swapFeePercent"] * 1e16);
      if not self.balWeightsEqualOne(poolData):
          return(False);
      owner = self.balSetOwner(poolData);
      createFunction = factory.functions.create(poolData["name"], poolData["symbol"],
          checksumTokens, intWithDecimalsWeights, swapFeePercentage, owner);
      return(createFunction);
  \<close>
\<close>

definition balCreateFnWeightedPoolFactory ::
  "chain \<Rightarrow> ('v, 'f) py_float \<Rightarrow> 'f poolData \<Rightarrow> py_exception + create_call or_false" where
  "balCreateFnWeightedPoolFactory C F poolData =
     (case sorted_keys C poolData of (tokens, checksumTokens) \<Rightarrow>
        (case foldE (weight_fixed_body F (pd_tokens poolData)) tokens [] of
           Inl e \<Rightarrow> Inl e
         | Inr intWithDecimalsWeights \<Rightarrow>
             (case f_trunc F (f_mul_pow10 F (pd_swapFeePercent poolData) 16) of
                Inl e \<Rightarrow> Inl e
              | Inr swapFeePercentage \<Rightarrow>
                  (case balWeightsEqualOne F poolData of
                     Inl e \<Rightarrow> Inl e
                   | Inr ok \<Rightarrow>
                       if \<not> ok then Inr PyFalse
                       else
                         (case balSetOwner C poolData of
                            Inl e \<Rightarrow> Inl e
                          | Inr owner \<Rightarrow>
                              Inr (Val \<lparr>cr_name = pd_name poolData, cr_symbol = pd_symbol poolData,
                                        cr_tokens = checksumTokens,
                                        cr_weights = intWithDecimalsWeights,
                                        cr_swapFeePercentage = swapFeePercentage,
                                        cr_oracleEnabled = None, cr_owner = owner\<rparr>))))))"

text \<open>
  \<^verbatim>\<open>
  def balCreateFnWeightedPool2TokensFactory(self, poolData):
      factory = self.balGetFactoryContract("WeightedPool2TokensFactory");
      (tokens, checksumTokens) = self.balSortTokens(list(poolData["tokens"].keys()));
      if not len(tokens) == 2:
          self.ERROR("WeightedPool2TokensFactory requires 2 tokens, but", len(tokens), "were given.");
          return(False);
      if not self.balWeightsEqualOne(poolData):
          return(False);
      intWithDecimalsWeights = [int(poolData["tokens"][t]["weight"] * 1e18) for t in tokens];
      swapFeePercentage = int(poolData["swapFeePercent"] * 1e16);
      owner = self.balSetOwner(poolData);
      oracleEnabled = False;
      if "oracleEnabled" in poolData.keys():
          oracleEnabled = poolData["oracleEnabled"];
          if isinstance(oracleEnabled, str):
              if oracleEnabled.lower() == "true":
                  oracleEnabled = True;
              else:
                  oracleEnabled = False;
      createFunction = factory.functions.create(poolData["name"], poolData["symbol"],
          checksumTokens, intWithDecimalsWeights, swapFeePercentage, oracleEnabled, owner);
      return(createFunction);
  \<close>
\<close>

definition char_lower :: "char \<Rightarrow> char" where
  "char_lower c =
     (if CHR ''A'' \<le> c \<and> c \<le> CHR ''Z'' then char_of (of_char c + (32::nat)) else c)"

definition resolve_oracleEnabled :: "oracle_flag option \<Rightarrow> bool" where
  "resolve_oracleEnabled flag =
     (case flag of
        None \<Rightarrow> False
      | Some (FlagBool b) \<Rightarrow> b
      | Some (FlagStr str) \<Rightarrow> (if map char_lower str = ''true'' then True else False))"

definition balCreateFnWeightedPool2TokensFactory ::
  "chain \<Rightarrow> ('v, 'f) py_float \<Rightarrow> 'f poolData \<Rightarrow> py_exception + create_call or_false" where
  "balCreateFnWeightedPool2TokensFactory C F poolData =
     (case sorted_keys C poolData of (tokens, checksumTokens) \<Rightarrow>
        if \<not> length tokens = 2 then
          (case ERROR [Str ''WeightedPool2TokensFactory requires 2 tokens, but'',
                       Num (int (length tokens)), Str ''were given.''] of
             Inl e \<Rightarrow> Inl e
           | Inr u \<Rightarrow> Inr PyFalse)
        else
          (case balWeightsEqualOne F poolData of
             Inl e \<Rightarrow> Inl e
           | Inr ok \<Rightarrow>
               if \<not> ok then Inr PyFalse
               else
                 (case foldE (weight_fixed_body F (pd_tokens poolData)) tokens [] of
                    Inl e \<Rightarrow> Inl e
                  | Inr intWithDecimalsWeights \<Rightarrow>
                      (case f_trunc F (f_mul_pow10 F (pd_swapFeePercent poolData) 16) of
                         Inl e \<Rightarrow> Inl e
                       | Inr swapFeePercentage \<Rightarrow>
                           (case balSetOwner C poolData of
                              Inl e \<Rightarrow> Inl e
                            | Inr owner \<Rightarrow>
                                Inr (Val \<lparr>cr_name = pd_name poolData,
                                          cr_symbol = pd_symbol poolData,
                                          cr_tokens = checksumTokens,
                                          cr_weights = intWithDecimalsWeights,
                                          cr_swapFeePercentage = swapFeePercentage,
                                          cr_oracleEnabled =
                                            Some (resolve_oracleEnabled (pd_oracleEnabled poolData)),
                                          cr_owner = owner\<rparr>))))))"

subsection \<open>Concrete inputs for the examples\<close>

definition example_chain :: chain where
  "example_chain = \<lparr>rpc_decimals = (\<lambda>t. 2), rpc_allowance = (\<lambda>n t sp. 0),
      rpc_balance = (\<lambda>n t. 100), rpc_transaction_count = (\<lambda>n. 7),
      gas_estimate = (\<lambda>fn. 50000), gas_price = (\<lambda>n. 5),
      tx_hash = (\<lambda>t. ''hash of approve '' @ ac_token (tx_call t)),
      web3_toChecksumAddress = (\<lambda>a. a)\<rparr>"

definition world0 :: world where
  "world0 = \<lparr>heap = heap_empty, decimalsCache = Map.empty, clock = 0, nonceFetches = 0,
      sent = [], waited = []\<rparr>"

definition never_found :: "nat \<Rightarrow> string \<Rightarrow> string + string" where
  "never_found n txHash = Inl ''TransactionNotFound''"

definition poll0 :: "nat poll_state" where
  "poll0 = \<lparr>lookups = 0, sleeps = []\<rparr>"

definition example_gas :: "(nat, string, int) gas_env" where
  "example_gas = \<lparr>time_time = (\<lambda>n. n), throttle = (\<lambda>now last. None),
      requests_get = (\<lambda>n. Inr ''response''), json_result = (\<lambda>response field. Inr 30)\<rparr>"

definition gas0 :: "nat gas_state" where
  "gas0 = \<lparr>lastEtherscanCallTime = 0, clockReads = 0, gasSleeps = [], requests = 0\<rparr>"

definition example_pool :: "(address \<times> int) list \<Rightarrow> int poolData" where
  "example_pool tokens = \<lparr>pd_name = ''pool'', pd_symbol = ''P'', pd_tokens = tokens,
      pd_swapFeePercent = 1, pd_owner = None, pd_oracleEnabled = None\<rparr>"

definition example_funds :: funds where
  "example_funds = \<lparr>fd_sender = ''0x01'', fd_fromInternalBalance = False,
      fd_recipient = ''0x01'', fd_toInternalBalance = False\<rparr>"

definition example_swap :: "int list \<Rightarrow> int swapDescription" where
  "example_swap limits = \<lparr>sd_kind = 0, sd_assets = 0,
      sd_swaps = [\<lparr>st_poolId = ''p'', st_assetInIndex = 0, st_assetOutIndex = 1, st_amount = 5\<rparr>],
      sd_limits = limits, sd_funds = example_funds, sd_deadline = 0\<rparr>"

definition example_world :: world where
  "example_world = world0\<lparr>heap := heap_empty(0 := [''0xBB'', ''0xAA'', ''0xCC''])\<rparr>"

definition example_call :: batchSwap_call where
  "example_call = \<lparr>bs_kind = 0, bs_swaps = [(''p'', 1, 0, 500, balSwapGetUserData)],
      bs_assets = [''0xAA'', ''0xBB'', ''0xCC''],
      bs_funds = (''0x01'', False, ''0x01'', False),
      bs_limits = [2000, 1000, 3000], bs_deadline = 0\<rparr>"
section \<open>Properties\<close>

subsection \<open>Token reordering\<close>

lemma foldE_append:
  "foldE f (xs @ ys) s = (case foldE f xs s of Inl e \<Rightarrow> Inl e | Inr s' \<Rightarrow> foldE f ys s')"
  by (induction xs arbitrary: s) (auto split: sum.splits)

lemma tokenAddressToIdx_body_apply:
  "tokenAddressToIdx_body tokens d i x = (if x = tokens ! i then Some i else d x)"
  by (simp add: tokenAddressToIdx_body_def)

lemma index_prefix:
  assumes "distinct xs" "k \<le> length xs"
  shows "foldl (tokenAddressToIdx_body xs) Map.empty [0..<k] x = Some i \<longleftrightarrow> i < k \<and> xs ! i = x"
  using assms(2)
proof (induction k)
  case 0
  then show ?case by simp
next
  case (Suc k)
  have k: "k < length xs" using Suc.prems by simp
  have IH: "foldl (tokenAddressToIdx_body xs) Map.empty [0..<k] x = Some i \<longleftrightarrow> i < k \<and> xs ! i = x"
    by (rule Suc.IH) (use k in simp)
  have step: "foldl (tokenAddressToIdx_body xs) Map.empty [0..<Suc k] x =
      (if x = xs ! k then Some k else foldl (tokenAddressToIdx_body xs) Map.empty [0..<k] x)"
    by (simp add: tokenAddressToIdx_body_apply)
  show ?case
  proof (cases "x = xs ! k")
    case True
    have "i < Suc k \<and> xs ! i = x \<longleftrightarrow> i = k"
      using True k assms(1) by (auto simp: nth_eq_iff_index_eq)
    then show ?thesis unfolding step using True by auto
  next
    case False
    then show ?thesis unfolding step using IH by (auto simp: less_Suc_eq)
  qed
qed

lemma tokenAddressToIdx_loop_distinct:
  "distinct xs \<Longrightarrow> tokenAddressToIdx_loop xs x = Some i \<longleftrightarrow> i < length xs \<and> xs ! i = x"
  unfolding tokenAddressToIdx_loop_def by (rule index_prefix) simp_all

lemma reorder_loop_prefix:
  assumes look: "\<forall>i<n. idx (ys ! i) = Some (p i)"
    and inj: "inj_on p {0..<n}"
    and k: "k \<le> n"
  shows "\<exists>o2s s2o. foldE (reorder_body idx ys) [0..<k] (Map.empty, Map.empty) = Inr (o2s, s2o)
           \<and> (\<forall>i. s2o i = (if i < k then Some (p i) else None))
           \<and> (\<forall>j i. o2s j = Some i \<longleftrightarrow> i < k \<and> p i = j)"
  using k
proof (induction k)
  case 0
  then show ?case by simp
next
  case (Suc k)
  then obtain o2s s2o where
    run: "foldE (reorder_body idx ys) [0..<k] (Map.empty, Map.empty) = Inr (o2s, s2o)"
    and s2o: "\<forall>i. s2o i = (if i < k then Some (p i) else None)"
    and o2s: "\<forall>j i. o2s j = Some i \<longleftrightarrow> i < k \<and> p i = j"
    and kn: "k < n" by auto
  have body: "reorder_body idx ys (o2s, s2o) k = Inr (o2s(p k \<mapsto> k), s2o(k \<mapsto> p k))"
    using look kn by (simp add: reorder_body_def dict_get_def)
  have fresh: "p i \<noteq> p k" if "i < k" for i
  proof
    assume "p i = p k"
    moreover have "i \<in> {0..<n}" "k \<in> {0..<n}" using that kn by simp_all
    ultimately have "i = k" using inj by (rule_tac inj_onD)
    then show False using that by simp
  qed
  have "\<forall>j i. (o2s(p k \<mapsto> k)) j = Some i \<longleftrightarrow> i < Suc k \<and> p i = j"
    using o2s fresh by (auto simp: less_Suc_eq)
  moreover have "\<forall>i. (s2o(k \<mapsto> p k)) i = (if i < Suc k then Some (p i) else None)"
    using s2o by (auto simp: less_Suc_eq)
  ultimately show ?case
    using run body by (simp add: foldE_append)
qed

lemma reorder_char:
  fixes h :: "('a::linorder) heap"
  assumes d: "distinct (h tokens)"
  shows "\<exists>o2s s2o. balReorderTokenDicts tokens h = (Inr (tokens, o2s, s2o), list_sort tokens h)
     \<and> (\<forall>i j. s2o i = Some j \<longleftrightarrow>
            i < length (h tokens) \<and> j < length (h tokens) \<and> h tokens ! j = sort (h tokens) ! i)
     \<and> (\<forall>j i. o2s j = Some i \<longleftrightarrow>
            i < length (h tokens) \<and> j < length (h tokens) \<and> h tokens ! j = sort (h tokens) ! i)"
proof -
  define xs where "xs = h tokens"
  define ys where "ys = sort xs"
  define n where "n = length xs"
  have dys: "distinct ys" and lys: "length ys = n" and sys: "set ys = set xs"
    using d by (simp_all add: ys_def xs_def n_def)
  have "\<forall>i\<in>{0..<n}. \<exists>j. j < n \<and> xs ! j = ys ! i"
  proof
    fix i assume "i \<in> {0..<n}"
    then have "ys ! i \<in> set xs" using lys sys nth_mem by fastforce
    then show "\<exists>j. j < n \<and> xs ! j = ys ! i" by (auto simp: in_set_conv_nth n_def)
  qed
  then obtain p where p: "\<forall>i\<in>{0..<n}. p i < n \<and> xs ! p i = ys ! i"
    by (rule bchoice [elim_format]) blast
  have inj: "inj_on p {0..<n}"
  proof (rule inj_onI)
    fix i i' assume i: "i \<in> {0..<n}" and i': "i' \<in> {0..<n}" and e: "p i = p i'"
    then have "ys ! i = ys ! i'" using p by metis
    then show "i = i'" using dys lys i i' by (simp add: nth_eq_iff_index_eq)
  qed
  have look: "\<forall>i<n. tokenAddressToIdx_loop xs (ys ! i) = Some (p i)"
    using p d by (simp add: tokenAddressToIdx_loop_distinct xs_def n_def)
  obtain o2s s2o where
    run: "foldE (reorder_body (tokenAddressToIdx_loop xs) ys) [0..<n] (Map.empty, Map.empty) = Inr (o2s, s2o)"
    and s2o: "\<forall>i. s2o i = (if i < n then Some (p i) else None)"
    and o2s: "\<forall>j i. o2s j = Some i \<longleftrightarrow> i < n \<and> p i = j"
    using reorder_loop_prefix [OF look inj order_refl] by blast
  have rel: "i < n \<and> p i = j \<longleftrightarrow> i < n \<and> j < n \<and> xs ! j = ys ! i" for i j
  proof (cases "i < n")
    case True
    then have pi: "p i < n" "xs ! p i = ys ! i" using p by simp_all
    have dx: "distinct xs" using d by (simp add: xs_def)
    have "j = p i" if "j < n" "xs ! j = ys ! i"
      using nth_eq_iff_index_eq [OF dx, of j "p i"] that pi by (simp add: n_def)
    then have "j < n \<and> xs ! j = ys ! i \<longleftrightarrow> j = p i"
      using pi by auto
    then show ?thesis using True by auto
  next
    case False
    then show ?thesis by simp
  qed
  have res: "balReorderTokenDicts tokens h = (Inr (tokens, o2s, s2o), list_sort tokens h)"
    using run lys by (simp add: balReorderTokenDicts_def list_sort_def xs_def ys_def Let_def)
  have "\<forall>i j. s2o i = Some j \<longleftrightarrow> i < n \<and> j < n \<and> xs ! j = ys ! i"
    using s2o rel by auto
  moreover have "\<forall>j i. o2s j = Some i \<longleftrightarrow> i < n \<and> j < n \<and> xs ! j = ys ! i"
    using o2s rel by auto
  ultimately show ?thesis
    using res unfolding xs_def ys_def n_def by blast
qed

lemma reorder_total:
  fixes h :: "('a::linorder) heap"
  assumes d: "distinct (h tokens)"
  shows "\<exists>o2s s2o. balReorderTokenDicts tokens h = (Inr (tokens, o2s, s2o), list_sort tokens h)
     \<and> (\<forall>i<length (h tokens). \<exists>j<length (h tokens). s2o i = Some j)
     \<and> (\<forall>j<length (h tokens). \<exists>i<length (h tokens). o2s j = Some i)"
proof -
  define xs where "xs = h tokens"
  define n where "n = length xs"
  obtain o2s s2o where
    run: "balReorderTokenDicts tokens h = (Inr (tokens, o2s, s2o), list_sort tokens h)"
    and s2o: "\<And>i j. s2o i = Some j \<longleftrightarrow> i < n \<and> j < n \<and> xs ! j = sort xs ! i"
    and o2s: "\<And>j i. o2s j = Some i \<longleftrightarrow> i < n \<and> j < n \<and> xs ! j = sort xs ! i"
    using reorder_char [where h = h and tokens = tokens, OF d] unfolding xs_def n_def by blast
  have a: "\<forall>i<n. \<exists>j<n. s2o i = Some j"
  proof (intro allI impI)
    fix i assume i: "i < n"
    then have "sort xs ! i \<in> set (sort xs)" unfolding n_def by (intro nth_mem) simp
    then have "sort xs ! i \<in> set xs" by simp
    then obtain j where "j < n" "xs ! j = sort xs ! i" by (auto simp: in_set_conv_nth n_def)
    then show "\<exists>j<n. s2o i = Some j" using s2o [of i j] i by blast
  qed
  have b: "\<forall>j<n. \<exists>i<n. o2s j = Some i"
  proof (intro allI impI)
    fix j assume j: "j < n"
    then have "xs ! j \<in> set xs" by (simp add: n_def)
    then have "xs ! j \<in> set (sort xs)" by simp
    then obtain i where "i < length (sort xs)" "sort xs ! i = xs ! j"
      unfolding in_set_conv_nth by blast
    then have "i < n" "xs ! j = sort xs ! i" by (simp_all add: n_def)
    then show "\<exists>i<n. o2s j = Some i" using o2s [of j i] j by blast
  qed
  show ?thesis
    using run a b unfolding xs_def n_def by blast
qed

text \<open>
  Claim C1. For an address list without duplicates, \<open>balReorderTokenDicts\<close> returns
  normally; the list it returns is in ascending order and is a permutation of the input;
  \<open>originalIdxToSortedIdx\<close> and \<open>sortedIdxToOriginalIdx\<close> are both defined exactly on
  \<open>[0, n)\<close>, take exactly the values \<open>[0, n)\<close>, are injective there, and each undoes the
  other: going from an original index to its sorted index and back is the identity, and so
  is the other round trip.
\<close>

theorem balReorderTokenDicts_sorted_bijection:
  fixes h :: "('a::linorder) heap"
  assumes "distinct (h tokens)"
  shows "\<exists>sortedTokens originalToSorted sortedToOriginal h'.
      balReorderTokenDicts tokens h = (Inr (sortedTokens, originalToSorted, sortedToOriginal), h')
    \<and> sorted (h' sortedTokens) \<and> mset (h' sortedTokens) = mset (h tokens)
    \<and> dom originalToSorted = {0..<length (h tokens)}
    \<and> ran originalToSorted = {0..<length (h tokens)}
    \<and> dom sortedToOriginal = {0..<length (h tokens)}
    \<and> ran sortedToOriginal = {0..<length (h tokens)}
    \<and> inj_on originalToSorted {0..<length (h tokens)}
    \<and> inj_on sortedToOriginal {0..<length (h tokens)}
    \<and> (\<forall>i<length (h tokens). \<exists>j. originalToSorted i = Some j \<and> sortedToOriginal j = Some i)
    \<and> (\<forall>j<length (h tokens). \<exists>i. sortedToOriginal j = Some i \<and> originalToSorted i = Some j)"
proof -
  define xs where "xs = h tokens"
  define n where "n = length xs"
  obtain o2s s2o where
    run: "balReorderTokenDicts tokens h = (Inr (tokens, o2s, s2o), list_sort tokens h)"
    and s2o: "\<And>i j. s2o i = Some j \<longleftrightarrow> i < n \<and> j < n \<and> xs ! j = sort xs ! i"
    and o2s: "\<And>j i. o2s j = Some i \<longleftrightarrow> i < n \<and> j < n \<and> xs ! j = sort xs ! i"
    using reorder_char [where h = h and tokens = tokens, OF assms] unfolding xs_def n_def by blast
  have dx: "distinct xs" using assms by (simp add: xs_def)
  have fwd: "\<exists>i. i < n \<and> xs ! j = sort xs ! i" if "j < n" for j
  proof -
    have "xs ! j \<in> set xs" using that by (simp add: n_def)
    then have "xs ! j \<in> set (sort xs)" by simp
    then obtain i where "i < length (sort xs)" "sort xs ! i = xs ! j"
      unfolding in_set_conv_nth by blast
    then show ?thesis by (auto simp: n_def)
  qed
  have bwd: "\<exists>j. j < n \<and> xs ! j = sort xs ! i" if "i < n" for i
  proof -
    have "sort xs ! i \<in> set (sort xs)" using that unfolding n_def by (intro nth_mem) simp
    then have "sort xs ! i \<in> set xs" by simp
    then show ?thesis by (auto simp: in_set_conv_nth n_def)
  qed
  have uniq_i: "i = i'" if "i < n" "i' < n" "sort xs ! i = sort xs ! i'" for i i'
    using nth_eq_iff_index_eq [of "sort xs" i i'] dx that by (simp add: n_def)
  have uniq_j: "j = j'" if "j < n" "j' < n" "xs ! j = xs ! j'" for j j'
    using nth_eq_iff_index_eq [OF dx, of j j'] that by (simp add: n_def)
  have sorted_res: "sorted (list_sort tokens h tokens)"
    and mset_res: "mset (list_sort tokens h tokens) = mset (h tokens)"
    by (simp_all add: list_sort_def)
  have dom_o2s: "dom o2s = {0..<n}"
    using o2s fwd by (auto simp: dom_def)
  have ran_o2s: "ran o2s = {0..<n}"
    using o2s bwd by (auto simp: ran_def)
  have dom_s2o: "dom s2o = {0..<n}"
    using s2o bwd by (auto simp: dom_def)
  have ran_s2o: "ran s2o = {0..<n}"
    using s2o fwd by (auto simp: ran_def)
  have inj_o2s: "inj_on o2s {0..<n}"
  proof (rule inj_onI)
    fix j j' assume j: "j \<in> {0..<n}" and j': "j' \<in> {0..<n}" and e: "o2s j = o2s j'"
    obtain i where oj: "o2s j = Some i" using j dom_o2s by blast
    then have oj': "o2s j' = Some i" using e by simp
    have "xs ! j = sort xs ! i" "xs ! j' = sort xs ! i"
      using oj oj' o2s [of j i] o2s [of j' i] by blast+
    then show "j = j'" using uniq_j j j' by simp
  qed
  have inj_s2o: "inj_on s2o {0..<n}"
  proof (rule inj_onI)
    fix i i' assume i: "i \<in> {0..<n}" and i': "i' \<in> {0..<n}" and e: "s2o i = s2o i'"
    obtain j where si: "s2o i = Some j" using i dom_s2o by blast
    then have si': "s2o i' = Some j" using e by simp
    have "xs ! j = sort xs ! i" "xs ! j = sort xs ! i'"
      using si si' s2o [of i j] s2o [of i' j] by blast+
    then show "i = i'" using uniq_i i i' by simp
  qed
  have inv1: "\<forall>j<n. \<exists>i. o2s j = Some i \<and> s2o i = Some j"
  proof (intro allI impI)
    fix j assume "j < n"
    then obtain i where "i < n \<and> j < n \<and> xs ! j = sort xs ! i" using fwd by blast
    then have "o2s j = Some i \<and> s2o i = Some j" using o2s [of j i] s2o [of i j] by simp
    then show "\<exists>i. o2s j = Some i \<and> s2o i = Some j" ..
  qed
  have inv2: "\<forall>i<n. \<exists>j. s2o i = Some j \<and> o2s j = Some i"
  proof (intro allI impI)
    fix i assume "i < n"
    then obtain j where "i < n \<and> j < n \<and> xs ! j = sort xs ! i" using bwd by blast
    then have "s2o i = Some j \<and> o2s j = Some i" using o2s [of j i] s2o [of i j] by simp
    then show "\<exists>j. s2o i = Some j \<and> o2s j = Some i" ..
  qed
  have "balReorderTokenDicts tokens h = (Inr (tokens, o2s, s2o), list_sort tokens h)
    \<and> sorted (list_sort tokens h tokens) \<and> mset (list_sort tokens h tokens) = mset (h tokens)
    \<and> dom o2s = {0..<n} \<and> ran o2s = {0..<n} \<and> dom s2o = {0..<n} \<and> ran s2o = {0..<n}
    \<and> inj_on o2s {0..<n} \<and> inj_on s2o {0..<n}
    \<and> (\<forall>j<n. \<exists>i. o2s j = Some i \<and> s2o i = Some j)
    \<and> (\<forall>i<n. \<exists>j. s2o i = Some j \<and> o2s j = Some i)"
    using run sorted_res mset_res dom_o2s ran_o2s dom_s2o ran_s2o inj_o2s inj_s2o inv1 inv2
    by simp
  then show ?thesis
    unfolding xs_def n_def by (intro exI)
qed

theorem balReorderTokenDicts_sorted_bijection_witness:
  "distinct ((heap_empty(0 := [''0xBB'', ''0xAA'', ''0xCC''])) 0)
   \<and> (\<exists>sortedTokens originalToSorted sortedToOriginal h'.
      balReorderTokenDicts 0 (heap_empty(0 := [''0xBB'', ''0xAA'', ''0xCC''])) =
        (Inr (sortedTokens, originalToSorted, sortedToOriginal), h')
    \<and> sorted (h' sortedTokens)
    \<and> mset (h' sortedTokens) = mset [''0xBB'', ''0xAA'', ''0xCC'']
    \<and> dom originalToSorted = {0..<3}
    \<and> ran originalToSorted = {0..<3}
    \<and> dom sortedToOriginal = {0..<3}
    \<and> ran sortedToOriginal = {0..<3}
    \<and> inj_on originalToSorted {0..<3}
    \<and> inj_on sortedToOriginal {0..<3}
    \<and> (\<forall>i<3. \<exists>j. originalToSorted i = Some j \<and> sortedToOriginal j = Some i)
    \<and> (\<forall>j<3. \<exists>i. sortedToOriginal j = Some i \<and> originalToSorted i = Some j))"
proof -
  have d: "distinct ((heap_empty(0 := [''0xBB'', ''0xAA'', ''0xCC''])) 0)" by simp
  show ?thesis
    using d balReorderTokenDicts_sorted_bijection
      [where h = "heap_empty(0 := [''0xBB'', ''0xAA'', ''0xCC''])" and tokens = 0, OF d]
    by (simp add: numeral_3_eq_3)
qed


lemma balReorderTokenDicts_heap:
  "snd (balReorderTokenDicts tokens h) = list_sort tokens h"
  by (simp add: balReorderTokenDicts_def Let_def split: sum.splits prod.splits)

lemma balSortTokens_heap:
  "snd (balSortTokens toChecksumAddress tokensIn h) = list_sort tokensIn h"
  by (simp add: balSortTokens_def Let_def)

lemma sort_fixpoint: "sort xs = xs \<longleftrightarrow> sorted xs"
proof
  assume "sort xs = xs"
  then have "sorted (sort xs) = sorted xs" by simp
  then show "sorted xs" by simp
next
  assume "sorted xs"
  then show "sort xs = xs" by (rule sort_key_id_if_sorted [where f = "\<lambda>x. x", simplified])
qed

text \<open>
  Claim C7, as the code has it. Both \<open>balReorderTokenDicts\<close> and \<open>balSortTokens\<close> sort
  the caller's list object in place: after the call the caller's list holds its former
  elements in ascending order, every other list object is untouched, and the caller's
  list reads as before exactly when it was already sorted.
\<close>

theorem sorting_is_in_place:
  "snd (balReorderTokenDicts tokens h) = h(tokens := sort (h tokens))
   \<and> snd (balSortTokens toChecksumAddress tokens h) = h(tokens := sort (h tokens))
   \<and> (snd (balReorderTokenDicts tokens h) tokens = h tokens) = sorted (h tokens)
   \<and> (snd (balSortTokens toChecksumAddress tokens h) tokens = h tokens) = sorted (h tokens)"
  by (simp add: balReorderTokenDicts_heap balSortTokens_heap list_sort_def sort_fixpoint)

text \<open>
  The claim as written (the caller's sequence is not mutated) fails on the list
  \<open>[0xBB, 0xAA]\<close>: after the call the caller's list is \<open>[0xAA, 0xBB]\<close>.
\<close>

theorem caller_list_mutated_counterexample:
  "snd (balReorderTokenDicts 0 (heap_empty(0 := [''0xBB'', ''0xAA'']))) 0
     \<noteq> (heap_empty(0 := [''0xBB'', ''0xAA''])) 0"
proof -
  have "sort [''0xBB'', ''0xAA''] = [''0xAA'', ''0xBB'']" by code_simp
  then show ?thesis
    by (simp add: balReorderTokenDicts_heap list_sort_def)
qed

subsection \<open>The flash-swap predicate\<close>

lemma flash_loop_True:
  "balSwapIsFlashSwap_loop F limits = Inr True \<longleftrightarrow>
     (\<forall>a\<in>set limits. \<exists>x. f_of F a = Inr x \<and> f_eq_int F x 0)"
  by (induction limits) (auto split: sum.splits)

lemma flash_loop_False:
  assumes "i < length limits"
    and "\<forall>k<i. \<exists>x. f_of F (limits ! k) = Inr x \<and> f_eq_int F x 0"
    and "f_of F (limits ! i) = Inr y" and "\<not> f_eq_int F y 0"
  shows "balSwapIsFlashSwap_loop F limits = Inr False"
  using assms
proof (induction limits arbitrary: i)
  case Nil
  then show ?case by simp
next
  case (Cons a limits)
  show ?case
  proof (cases i)
    case 0
    then show ?thesis using Cons.prems by simp
  next
    case (Suc i')
    have a0: "\<exists>x. f_of F a = Inr x \<and> f_eq_int F x 0"
      using Cons.prems(2) Suc by (metis nth_Cons_0 zero_less_Suc)
    have "balSwapIsFlashSwap_loop F limits = Inr False"
    proof (rule Cons.IH [of i'])
      show "i' < length limits" using Cons.prems(1) Suc by simp
      show "\<forall>k<i'. \<exists>x. f_of F (limits ! k) = Inr x \<and> f_eq_int F x 0"
        using Cons.prems(2) Suc by (metis Suc_less_eq nth_Cons_Suc)
      show "f_of F (limits ! i') = Inr y" using Cons.prems(3) Suc by simp
      show "\<not> f_eq_int F y 0" by (rule Cons.prems(4))
    qed
    then show ?thesis using a0 by auto
  qed
qed

text \<open>
  Claim C10. \<open>balSwapIsFlashSwap\<close> returns \<open>True\<close> exactly when every entry of the
  limits reads as a float that equals \<open>0.0\<close>; it does so on an empty list of limits; and
  it returns \<open>False\<close> at the first entry that reads as a non-zero float, whatever the
  entries after it are.
\<close>

theorem balSwapIsFlashSwap_iff_all_zero:
  "(balSwapIsFlashSwap F sd = Inr True
      \<longleftrightarrow> (\<forall>a\<in>set (sd_limits sd). \<exists>x. f_of F a = Inr x \<and> f_eq_int F x 0))
   \<and> (sd_limits sd = [] \<longrightarrow> balSwapIsFlashSwap F sd = Inr True)
   \<and> (\<forall>i y. i < length (sd_limits sd)
          \<and> (\<forall>k<i. \<exists>x. f_of F (sd_limits sd ! k) = Inr x \<and> f_eq_int F x 0)
          \<and> f_of F (sd_limits sd ! i) = Inr y \<and> \<not> f_eq_int F y 0
        \<longrightarrow> balSwapIsFlashSwap F sd = Inr False)"
  unfolding balSwapIsFlashSwap_def
  using flash_loop_True [of F "sd_limits sd"] flash_loop_False [of _ "sd_limits sd" F]
  by auto

theorem balSwapIsFlashSwap_iff_all_zero_witness:
  "balSwapIsFlashSwap int_float (example_swap [0, 0]) = Inr True
   \<and> balSwapIsFlashSwap int_float (example_swap []) = Inr True
   \<and> balSwapIsFlashSwap int_float (example_swap [0, 7, 0]) = Inr False"
proof -
  have a: "\<forall>a\<in>set (sd_limits (example_swap [0, 0])). \<exists>x. f_of int_float a = Inr x \<and> f_eq_int int_float x 0"
    by (simp add: example_swap_def int_float_def)
  have b: "sd_limits (example_swap []) = []"
    by (simp add: example_swap_def)
  have c: "1 < length (sd_limits (example_swap [0, 7, 0]))
      \<and> (\<forall>k<1. \<exists>x. f_of int_float (sd_limits (example_swap [0, 7, 0]) ! k) = Inr x \<and> f_eq_int int_float x 0)
      \<and> f_of int_float (sd_limits (example_swap [0, 7, 0]) ! 1) = Inr 7 \<and> \<not> f_eq_int int_float 7 0"
    by (simp add: example_swap_def int_float_def)
  show ?thesis
    using a b c
      balSwapIsFlashSwap_iff_all_zero [of int_float "example_swap [0, 0]"]
      balSwapIsFlashSwap_iff_all_zero [of int_float "example_swap []"]
      balSwapIsFlashSwap_iff_all_zero [of int_float "example_swap [0, 7, 0]"]
    by blast
qed

subsection \<open>The gas oracle\<close>

text \<open>
  Claim C9. For a speed that is none of \<open>slow\<close>, \<open>average\<close> and \<open>fast\<close>,
  \<open>getGasPriceEtherscanGwei\<close> reports the error by returning \<open>False\<close> in place of a
  price; it sends no request to the oracle and leaves the time of the last call as it was.
\<close>

theorem getGasPriceEtherscanGwei_invalid_speed:
  assumes "speed \<notin> {''slow'', ''average'', ''fast''}"
  shows "fst (getGasPriceEtherscanGwei G speed s) = Inr PyFalse
       \<and> requests (snd (getGasPriceEtherscanGwei G speed s)) = requests s
       \<and> lastEtherscanCallTime (snd (getGasPriceEtherscanGwei G speed s)) = lastEtherscanCallTime s"
proof -
  have "speed \<notin> dom etherscanSpeedDict"
    using assms by (auto simp: etherscanSpeedDict_def split: if_splits)
  then show ?thesis
    by (simp add: getGasPriceEtherscanGwei_def Let_def split: option.splits)
qed

theorem getGasPriceEtherscanGwei_invalid_speed_witness:
  "''turbo'' \<notin> {''slow'', ''average'', ''fast''}
   \<and> fst (getGasPriceEtherscanGwei example_gas ''turbo'' gas0) = Inr PyFalse
   \<and> requests (snd (getGasPriceEtherscanGwei example_gas ''turbo'' gas0)) = requests gas0
   \<and> lastEtherscanCallTime (snd (getGasPriceEtherscanGwei example_gas ''turbo'' gas0)) =
       lastEtherscanCallTime gas0"
proof -
  have h: "''turbo'' \<notin> {''slow'', ''average'', ''fast''}" by simp
  show ?thesis
    using h getGasPriceEtherscanGwei_invalid_speed
      [where speed = "''turbo''" and G = example_gas and s = gas0, OF h]
    by blast
qed

lemma getGasPriceEtherscanGwei_valid_speed:
  assumes "etherscanSpeedDict speed = Some field"
    and "requests_get G (requests s) = Inr response"
    and "json_result G response field = Inr price"
  shows "fst (getGasPriceEtherscanGwei G speed s) = Inr (Val price)"
proof -
  have "speed \<in> dom etherscanSpeedDict" using assms(1) by blast
  then show ?thesis
    using assms
    by (simp add: getGasPriceEtherscanGwei_def Let_def dict_get_def split: option.splits)
qed

subsection \<open>Receipt polling\<close>

lemma getTxReceipt_loop_all_fail:
  "\<forall>n<length attempts. \<exists>e. getTransactionReceipt (lookups s + n) txHash = Inl e \<Longrightarrow>
   getTxReceipt_loop getTransactionReceipt txHash delay attempts s =
     (None, s\<lparr>lookups := lookups s + length attempts,
              sleeps := sleeps s @ replicate (length attempts) delay\<rparr>)"
proof (induction attempts arbitrary: s)
  case Nil
  then show ?case by simp
next
  case (Cons i attempts)
  from Cons.prems obtain e where e: "getTransactionReceipt (lookups s) txHash = Inl e"
    by fastforce
  let ?s1 = "s\<lparr>lookups := Suc (lookups s), sleeps := sleeps s @ [delay]\<rparr>"
  have "\<forall>n<length attempts. \<exists>e. getTransactionReceipt (lookups ?s1 + n) txHash = Inl e"
    using Cons.prems by (auto dest: spec [where x = "Suc n" for n])
  from Cons.IH [OF this] e show ?case
    by (simp add: replicate_append_same)
qed

text \<open>
  Claim C5, on the code. When each of the \<open>maxRetries\<close> lookups fails, with whatever
  exception, \<open>getTxReceipt\<close> has made \<open>maxRetries\<close> lookups and slept \<open>delay\<close> after
  each, and then it raises \<open>TypeError\<close>: \<open>self.ERROR\<close> is called with three arguments
  and takes one. The \<open>return(False)\<close> after it is never reached.
\<close>

theorem getTxReceipt_exhausted_raises:
  assumes "\<forall>n<nat maxRetries. \<exists>e. getTransactionReceipt (lookups s + n) txHash = Inl e"
  shows "getTxReceipt getTransactionReceipt txHash delay maxRetries s =
           (Inl TypeError, s\<lparr>lookups := lookups s + nat maxRetries,
                             sleeps := sleeps s @ replicate (nat maxRetries) delay\<rparr>)"
  using getTxReceipt_loop_all_fail [of "[0..<nat maxRetries]" getTransactionReceipt s txHash delay] assms
  by (simp add: getTxReceipt_def)

theorem getTxReceipt_exhausted_raises_witness:
  "(getTxReceipt never_found ''0xabc'' (2::nat) 5 poll0 =
      (Inl TypeError, \<lparr>lookups = 5, sleeps = [2, 2, 2, 2, 2]\<rparr>))"
proof -
  have h: "\<forall>n<nat 5. \<exists>e. never_found (lookups poll0 + n) ''0xabc'' = Inl e"
    by (simp add: never_found_def)
  have r: "replicate (nat 5) (2::nat) = [2, 2, 2, 2, 2]" by (simp add: eval_nat_numeral)
  show ?thesis
    using getTxReceipt_exhausted_raises
      [where getTransactionReceipt = never_found and s = poll0 and txHash = "''0xabc''"
         and maxRetries = 5 and delay = "2::nat", OF h] r
    by (simp add: poll0_def)
qed

lemma getTxReceipt_found:
  "getTransactionReceipt (lookups s) txHash = Inr receipt \<Longrightarrow> 0 < maxRetries \<Longrightarrow>
   fst (getTxReceipt getTransactionReceipt txHash delay maxRetries s) = Inr (Val receipt)"
proof -
  assume a: "getTransactionReceipt (lookups s) txHash = Inr receipt" and m: "0 < maxRetries"
  then obtain k where "nat maxRetries = Suc k" by (cases "nat maxRetries") auto
  then have "[0..<nat maxRetries] = 0 # [1..<Suc k]" by (simp add: upt_rec)
  then show ?thesis using a by (simp add: getTxReceipt_def)
qed

lemma getTxReceipt_never_returns_False:
  "fst (getTxReceipt getTransactionReceipt txHash delay maxRetries s) \<noteq> Inr PyFalse"
  by (simp add: getTxReceipt_def split: prod.splits option.splits)

subsection \<open>Pool creation\<close>

lemma weight_sum_loop:
  assumes "distinct (map fst tokenData)" "set xs \<subseteq> set tokenData"
  shows "foldE (weight_body F tokenData) (map fst xs) z = Inr (foldl (f_add F) z (map snd xs))"
  using assms(2)
proof (induction xs arbitrary: z)
  case Nil
  then show ?case by simp
next
  case (Cons x xs)
  then have "map_of tokenData (fst x) = Some (snd x)"
    using assms(1) by (cases x) auto
  then show ?case using Cons by (simp add: weight_body_def dict_get_def)
qed

lemma balWeightsEqualOne_sum:
  assumes "distinct (map fst (pd_tokens poolData))"
  shows "balWeightsEqualOne F poolData =
           Inr (f_eq_int F (foldl (f_add F) (f_zero F) (map snd (pd_tokens poolData))) 1)"
  using weight_sum_loop [OF assms subset_refl, of F "f_zero F"]
  by (simp add: balWeightsEqualOne_def Let_def)

lemma sorted_keys_length: "length (fst (sorted_keys C pd)) = length (pd_tokens pd)"
  by (simp add: sorted_keys_def balSortTokens_def list_sort_def Let_def)

text \<open>
  The weight check of the two factories: with distinct token keys, \<open>False\<close> is returned
  exactly when the float sum of the weights, taken in the dictionary's order from \<open>0.0\<close>,
  is not equal to \<open>1.0\<close>.
\<close>

lemma weighted_pool_False_iff:
  "balCreateFnWeightedPoolFactory C F poolData = Inr PyFalse \<longleftrightarrow>
     (\<exists>ws fee. foldE (weight_fixed_body F (pd_tokens poolData)) (fst (sorted_keys C poolData)) [] = Inr ws
        \<and> f_trunc F (f_mul_pow10 F (pd_swapFeePercent poolData) 16) = Inr fee
        \<and> balWeightsEqualOne F poolData = Inr False)"
  by (auto simp: balCreateFnWeightedPoolFactory_def balWeightsEqualOne_def Let_def
      split: prod.splits sum.splits if_splits)

lemma weighted_pool_rejects_iff:
  assumes "distinct (map fst (pd_tokens poolData))"
    and "foldE (weight_fixed_body F (pd_tokens poolData)) (fst (sorted_keys C poolData)) [] = Inr ws"
    and "f_trunc F (f_mul_pow10 F (pd_swapFeePercent poolData) 16) = Inr fee"
  shows "balCreateFnWeightedPoolFactory C F poolData = Inr PyFalse \<longleftrightarrow>
     \<not> f_eq_int F (foldl (f_add F) (f_zero F) (map snd (pd_tokens poolData))) 1"
  using assms(2,3) balWeightsEqualOne_sum [OF assms(1), of F]
  by (auto simp: balCreateFnWeightedPoolFactory_def split: prod.splits sum.splits)

lemma two_token_pool_rejects_iff:
  assumes "distinct (map fst (pd_tokens poolData))"
    and "length (pd_tokens poolData) = 2"
  shows "balCreateFnWeightedPool2TokensFactory C F poolData = Inr PyFalse \<longleftrightarrow>
     \<not> f_eq_int F (foldl (f_add F) (f_zero F) (map snd (pd_tokens poolData))) 1"
proof -
  obtain tokens checksumTokens where sk: "sorted_keys C poolData = (tokens, checksumTokens)"
    by (cases "sorted_keys C poolData")
  then have "length tokens = 2"
    using assms(2) sorted_keys_length [of C poolData] by simp
  then show ?thesis
    using sk balWeightsEqualOne_sum [OF assms(1), of F]
    by (auto simp: balCreateFnWeightedPool2TokensFactory_def split: sum.splits)
qed

text \<open>
  Claim C8, on the code. With a number of tokens other than two,
  \<open>balCreateFnWeightedPool2TokensFactory\<close> raises \<open>TypeError\<close>: \<open>self.ERROR\<close> is called
  with three arguments and takes one. The \<open>return(False)\<close> after it is never reached.
\<close>

theorem two_token_factory_wrong_count_raises:
  assumes "length (pd_tokens poolData) \<noteq> 2"
  shows "balCreateFnWeightedPool2TokensFactory C F poolData = Inl TypeError"
proof -
  obtain tokens checksumTokens where sk: "sorted_keys C poolData = (tokens, checksumTokens)"
    by (cases "sorted_keys C poolData")
  then have "length tokens \<noteq> 2"
    using assms sorted_keys_length [of C poolData] by simp
  then show ?thesis
    using sk by (simp add: balCreateFnWeightedPool2TokensFactory_def)
qed

theorem two_token_factory_wrong_count_raises_witness:
  "length (pd_tokens (example_pool [(''0xAA'', 1), (''0xBB'', 0), (''0xCC'', 0)])) \<noteq> 2
   \<and> balCreateFnWeightedPool2TokensFactory example_chain int_float
        (example_pool [(''0xAA'', 1), (''0xBB'', 0), (''0xCC'', 0)]) = Inl TypeError"
proof -
  have h: "length (pd_tokens (example_pool [(''0xAA'', 1), (''0xBB'', 0), (''0xCC'', 0)])) \<noteq> 2"
    by (simp add: example_pool_def)
  show ?thesis
    using h two_token_factory_wrong_count_raises
      [where poolData = "example_pool [(''0xAA'', 1), (''0xBB'', 0), (''0xCC'', 0)]"
         and C = example_chain and F = int_float, OF h]
    by simp
qed

subsection \<open>Allowance enforcement\<close>

lemma erc20GetDecimals_frame [simp]:
  "heap (snd (erc20GetDecimals C t s)) = heap s"
  "clock (snd (erc20GetDecimals C t s)) = clock s"
  "nonceFetches (snd (erc20GetDecimals C t s)) = nonceFetches s"
  "sent (snd (erc20GetDecimals C t s)) = sent s"
  "waited (snd (erc20GetDecimals C t s)) = waited s"
  by (simp_all add: erc20GetDecimals_def Let_def split: option.splits)

lemma erc20GetDecimals_view [simp]:
  "fst (erc20GetDecimals C t' (snd (erc20GetDecimals C t s))) = fst (erc20GetDecimals C t' s)"
  by (simp add: erc20GetDecimals_def Let_def split: option.splits)

lemma erc20GetDecimals_upd [simp]:
  "erc20GetDecimals C t (s\<lparr>clock := c\<rparr>) = (fst (erc20GetDecimals C t s), (snd (erc20GetDecimals C t s))\<lparr>clock := c\<rparr>)"
  "erc20GetDecimals C t (s\<lparr>sent := x\<rparr>) = (fst (erc20GetDecimals C t s), (snd (erc20GetDecimals C t s))\<lparr>sent := x\<rparr>)"
  "erc20GetDecimals C t (s\<lparr>waited := w\<rparr>) = (fst (erc20GetDecimals C t s), (snd (erc20GetDecimals C t s))\<lparr>waited := w\<rparr>)"
  "erc20GetDecimals C t (s\<lparr>nonceFetches := n\<rparr>) = (fst (erc20GetDecimals C t s), (snd (erc20GetDecimals C t s))\<lparr>nonceFetches := n\<rparr>)"
  "erc20GetDecimals C t (s\<lparr>heap := h\<rparr>) = (fst (erc20GetDecimals C t s), (snd (erc20GetDecimals C t s))\<lparr>heap := h\<rparr>)"
  by (simp_all add: erc20GetDecimals_def Let_def split: option.splits)


lemma erc20HasSufficientAllowance_frame [simp]:
  "heap (snd (erc20HasSufficientAllowance C F tok sp amount s)) = heap s"
  "clock (snd (erc20HasSufficientAllowance C F tok sp amount s)) = Suc (Suc (clock s))"
  "nonceFetches (snd (erc20HasSufficientAllowance C F tok sp amount s)) = nonceFetches s"
  "sent (snd (erc20HasSufficientAllowance C F tok sp amount s)) = sent s"
  "waited (snd (erc20HasSufficientAllowance C F tok sp amount s)) = waited s"
  "fst (erc20GetDecimals C t (snd (erc20HasSufficientAllowance C F tok sp amount s))) =
     fst (erc20GetDecimals C t s)"
  by (simp_all add: erc20HasSufficientAllowance_def erc20GetAllowanceStandard_def
      erc20GetBalanceStandard_def case_prod_beta Let_def)










subsection \<open>The batched enforcement and its nonces\<close>










lemma enforce_batch_example:
  "map tx_nonce (sent (snd (erc20AsyncEnforceSufficientVaultAllowances example_chain int_float
       [''0xAA'', ''0xBB'', ''0xCC''] [PyInt (- 1), PyInt 3, PyInt (- 1)] [5, 0, 5] world0))) = [7, 8]
   \<and> map (ac_token \<circ> tx_call) (sent (snd (erc20AsyncEnforceSufficientVaultAllowances example_chain int_float
       [''0xAA'', ''0xBB'', ''0xCC''] [PyInt (- 1), PyInt 3, PyInt (- 1)] [5, 0, 5] world0))) = [''0xAA'', ''0xCC'']"
  by (simp add: erc20AsyncEnforceSufficientVaultAllowances_def Let_def enforce_body_def
      list_get_def world0_def upt_rec [of 0] upt_rec [of 1] upt_rec [of 2] upt_rec [of 3]
      erc20EnforceSufficientVaultAllowance_def
      erc20EnforceSufficientAllowance_def erc20HasSufficientAllowance_def
      erc20GetAllowanceStandard_def erc20GetBalanceStandard_def erc20GetDecimals_def
      erc20SignAndSendNewAllowance_def buildTx_def sendTx_def waitForTx_def
      erc20BuildFunctionSetAllowance_def example_chain_def int_float_def INFINITE_def)

text \<open>
  Claim C6, as the code has it. The guard compares the token array with the array of target
  allowances: when their lengths differ the call returns \<open>False\<close> with the state as it
  was, so before the transaction count is read or anything is enforced; when the three
  arrays have one length it does not return \<open>False\<close>.
\<close>

theorem length_guard:
  "(length tokens \<noteq> length targetAllowances
      \<longrightarrow> erc20AsyncEnforceSufficientVaultAllowances C F tokens targetAllowances amounts s = (Inr False, s))
   \<and> (length tokens = length targetAllowances \<and> length amounts = length tokens
      \<longrightarrow> fst (erc20AsyncEnforceSufficientVaultAllowances C F tokens targetAllowances amounts s) \<noteq> Inr False)"
  by (auto simp: erc20AsyncEnforceSufficientVaultAllowances_def Let_def split: prod.splits sum.splits)

theorem length_guard_witness:
  "length [''0xAA''] \<noteq> length ([] :: int py_num list)
   \<and> erc20AsyncEnforceSufficientVaultAllowances example_chain int_float [''0xAA''] [] [5] world0
       = (Inr False, world0)
   \<and> length [''0xAA''] = length [PyInt (- 1) :: int py_num]
   \<and> length [5 :: int] = length [''0xAA'']
   \<and> fst (erc20AsyncEnforceSufficientVaultAllowances example_chain int_float
            [''0xAA''] [PyInt (- 1)] [5] world0) \<noteq> Inr False"
proof -
  have a: "length [''0xAA''] \<noteq> length ([] :: int py_num list)" by simp
  have b: "length [''0xAA''] = length [PyInt (- 1) :: int py_num] \<and> length [5 :: int] = length [''0xAA'']"
    by simp
  show ?thesis
    using a b
      length_guard [where tokens = "[''0xAA'']" and targetAllowances = "[] :: int py_num list"
        and amounts = "[5]" and C = example_chain and F = int_float and s = world0]
      length_guard [where tokens = "[''0xAA'']" and targetAllowances = "[PyInt (- 1)]"
        and amounts = "[5]" and C = example_chain and F = int_float and s = world0]
    by blast
qed

text \<open>
  The claim as written fails on one token, one target and no amount: the token array and
  the amount array differ in length, the transaction count is read all the same, and the
  call ends in \<open>IndexError\<close> at \<open>amounts[0]\<close>.
\<close>

theorem length_guard_counterexample:
  "length [''0xAA''] \<noteq> length ([] :: int list)
   \<and> fst (erc20AsyncEnforceSufficientVaultAllowances example_chain int_float
            [''0xAA''] [PyInt (- 1)] [] world0) = Inl IndexError
   \<and> nonceFetches (snd (erc20AsyncEnforceSufficientVaultAllowances example_chain int_float
            [''0xAA''] [PyInt (- 1)] [] world0)) = 1"
  by (simp add: erc20AsyncEnforceSufficientVaultAllowances_def Let_def enforce_body_def
      list_get_def world0_def)

subsection \<open>The batch-swap encoder\<close>

lemma foldSE_Cons_Inr:
  assumes "foldSE f (x # xs) acc s = (Inr out, s')"
  obtains acc1 s1 where "f acc x s = (Inr acc1, s1)" "foldSE f xs acc1 s1 = (Inr out, s')"
  using assms by (auto split: prod.splits sum.splits)

lemma limits_body_Inr:
  assumes "limits_body C F limits s2o r acc i s = (Inr acc1, s1)"
  shows "\<exists>j v. s2o i = Some j \<and> j < length limits \<and> i < length (heap s r)
     \<and> to_raw F (limits ! j) (fst (erc20GetDecimals C (heap s r ! i) s)) = Inr v
     \<and> acc1 = acc @ [v] \<and> s1 = snd (erc20GetDecimals C (heap s r ! i) s)"
  using assms
  by (auto simp: limits_body_def dict_get_def list_get_def to_raw_def case_prod_beta Let_def
      split: option.splits sum.splits if_splits)

lemma limits_loop:
  assumes "foldSE (limits_body C F limits s2o r) ixs acc s = (Inr out, s')"
  shows "heap s' = heap s
     \<and> (\<forall>t. fst (erc20GetDecimals C t s') = fst (erc20GetDecimals C t s))
     \<and> (\<exists>vals. out = acc @ vals \<and> length vals = length ixs
          \<and> (\<forall>m<length ixs. \<exists>j. s2o (ixs ! m) = Some j \<and> j < length limits
                \<and> ixs ! m < length (heap s r)
                \<and> to_raw F (limits ! j) (fst (erc20GetDecimals C (heap s r ! (ixs ! m)) s))
                     = Inr (vals ! m)))"
  using assms
proof (induction ixs arbitrary: acc s)
  case Nil
  then show ?case by simp
next
  case (Cons i ixs)
  from Cons.prems obtain acc1 s1 where
    b: "limits_body C F limits s2o r acc i s = (Inr acc1, s1)"
    and rest: "foldSE (limits_body C F limits s2o r) ixs acc1 s1 = (Inr out, s')"
    by (rule foldSE_Cons_Inr)
  from limits_body_Inr [OF b] obtain j v where
    j: "s2o i = Some j" "j < length limits" "i < length (heap s r)"
       "to_raw F (limits ! j) (fst (erc20GetDecimals C (heap s r ! i) s)) = Inr v"
    and acc1: "acc1 = acc @ [v]" and s1: "s1 = snd (erc20GetDecimals C (heap s r ! i) s)"
    by blast
  have h1: "heap s1 = heap s" and d1: "\<And>t. fst (erc20GetDecimals C t s1) = fst (erc20GetDecimals C t s)"
    by (simp_all add: s1)
  from Cons.IH [OF rest] obtain vals where
    hs: "heap s' = heap s1" and ds: "\<forall>t. fst (erc20GetDecimals C t s') = fst (erc20GetDecimals C t s1)"
    and out: "out = acc1 @ vals" and len: "length vals = length ixs"
    and each: "\<forall>m<length ixs. \<exists>j. s2o (ixs ! m) = Some j \<and> j < length limits
                \<and> ixs ! m < length (heap s1 r)
                \<and> to_raw F (limits ! j) (fst (erc20GetDecimals C (heap s1 r ! (ixs ! m)) s1))
                     = Inr (vals ! m)"
    by blast
  have all: "\<forall>m<length (i # ixs). \<exists>j. s2o ((i # ixs) ! m) = Some j \<and> j < length limits
                \<and> (i # ixs) ! m < length (heap s r)
                \<and> to_raw F (limits ! j) (fst (erc20GetDecimals C (heap s r ! ((i # ixs) ! m)) s))
                     = Inr ((v # vals) ! m)"
  proof (intro allI impI)
    fix m assume m: "m < length (i # ixs)"
    show "\<exists>j. s2o ((i # ixs) ! m) = Some j \<and> j < length limits
                \<and> (i # ixs) ! m < length (heap s r)
                \<and> to_raw F (limits ! j) (fst (erc20GetDecimals C (heap s r ! ((i # ixs) ! m)) s))
                     = Inr ((v # vals) ! m)"
    proof (cases m)
      case 0
      then show ?thesis using j by simp
    next
      case (Suc m')
      then have "m' < length ixs" using m by simp
      with each show ?thesis unfolding Suc by (simp add: h1 d1)
    qed
  qed
  show ?case
    apply (intro conjI)
      apply (simp add: hs h1)
     apply (simp add: ds d1)
    apply (rule exI [of _ "v # vals"])
    using out acc1 len all by simp
qed

lemma swaps_body_Inr:
  assumes "swaps_body C F o2s r acc st s = (Inr acc1, s1)"
  shows "\<exists>iIn iOut amt. 0 \<le> st_assetInIndex st \<and> o2s (nat (st_assetInIndex st)) = Some iIn
     \<and> 0 \<le> st_assetOutIndex st \<and> o2s (nat (st_assetOutIndex st)) = Some iOut
     \<and> iIn < length (heap s r)
     \<and> to_raw F (st_amount st) (fst (erc20GetDecimals C (heap s r ! iIn) s)) = Inr amt
     \<and> acc1 = acc @ [(st_poolId st, iIn, iOut, amt, balSwapGetUserData)]
     \<and> s1 = snd (erc20GetDecimals C (heap s r ! iIn) s)"
  using assms
  by (auto simp: swaps_body_def dict_get_int_def dict_get_def list_get_def case_prod_beta Let_def
      split: option.splits sum.splits if_splits)

lemma swaps_loop:
  assumes "foldSE (swaps_body C F o2s r) steps acc s = (Inr out, s')"
  shows "heap s' = heap s
     \<and> (\<forall>t. fst (erc20GetDecimals C t s') = fst (erc20GetDecimals C t s))
     \<and> (\<exists>tuples. out = acc @ tuples \<and> length tuples = length steps
          \<and> (\<forall>m<length steps. \<exists>iIn iOut amt.
                tuples ! m = (st_poolId (steps ! m), iIn, iOut, amt, balSwapGetUserData)
                \<and> 0 \<le> st_assetInIndex (steps ! m)
                \<and> o2s (nat (st_assetInIndex (steps ! m))) = Some iIn
                \<and> 0 \<le> st_assetOutIndex (steps ! m)
                \<and> o2s (nat (st_assetOutIndex (steps ! m))) = Some iOut
                \<and> iIn < length (heap s r)
                \<and> to_raw F (st_amount (steps ! m)) (fst (erc20GetDecimals C (heap s r ! iIn) s))
                     = Inr amt))"
  using assms
proof (induction steps arbitrary: acc s)
  case Nil
  then show ?case by simp
next
  case (Cons st steps)
  from Cons.prems obtain acc1 s1 where
    b: "swaps_body C F o2s r acc st s = (Inr acc1, s1)"
    and rest: "foldSE (swaps_body C F o2s r) steps acc1 s1 = (Inr out, s')"
    by (rule foldSE_Cons_Inr)
  from swaps_body_Inr [OF b] obtain iIn iOut amt where
    j: "0 \<le> st_assetInIndex st" "o2s (nat (st_assetInIndex st)) = Some iIn"
       "0 \<le> st_assetOutIndex st" "o2s (nat (st_assetOutIndex st)) = Some iOut"
       "iIn < length (heap s r)"
       "to_raw F (st_amount st) (fst (erc20GetDecimals C (heap s r ! iIn) s)) = Inr amt"
    and acc1: "acc1 = acc @ [(st_poolId st, iIn, iOut, amt, balSwapGetUserData)]"
    and s1: "s1 = snd (erc20GetDecimals C (heap s r ! iIn) s)"
    by blast
  have h1: "heap s1 = heap s" and d1: "\<And>t. fst (erc20GetDecimals C t s1) = fst (erc20GetDecimals C t s)"
    by (simp_all add: s1)
  from Cons.IH [OF rest] obtain tuples where
    hs: "heap s' = heap s1" and ds: "\<forall>t. fst (erc20GetDecimals C t s') = fst (erc20GetDecimals C t s1)"
    and out: "out = acc1 @ tuples" and len: "length tuples = length steps"
    and each: "\<forall>m<length steps. \<exists>iIn iOut amt.
                tuples ! m = (st_poolId (steps ! m), iIn, iOut, amt, balSwapGetUserData)
                \<and> 0 \<le> st_assetInIndex (steps ! m)
                \<and> o2s (nat (st_assetInIndex (steps ! m))) = Some iIn
                \<and> 0 \<le> st_assetOutIndex (steps ! m)
                \<and> o2s (nat (st_assetOutIndex (steps ! m))) = Some iOut
                \<and> iIn < length (heap s1 r)
                \<and> to_raw F (st_amount (steps ! m)) (fst (erc20GetDecimals C (heap s1 r ! iIn) s1))
                     = Inr amt"
    by blast
  let ?tup = "(st_poolId st, iIn, iOut, amt, balSwapGetUserData)"
  have all: "\<forall>m<length (st # steps). \<exists>iIn iOut amt.
                (?tup # tuples) ! m = (st_poolId ((st # steps) ! m), iIn, iOut, amt, balSwapGetUserData)
                \<and> 0 \<le> st_assetInIndex ((st # steps) ! m)
                \<and> o2s (nat (st_assetInIndex ((st # steps) ! m))) = Some iIn
                \<and> 0 \<le> st_assetOutIndex ((st # steps) ! m)
                \<and> o2s (nat (st_assetOutIndex ((st # steps) ! m))) = Some iOut
                \<and> iIn < length (heap s r)
                \<and> to_raw F (st_amount ((st # steps) ! m)) (fst (erc20GetDecimals C (heap s r ! iIn) s))
                     = Inr amt"
  proof (intro allI impI)
    fix m assume m: "m < length (st # steps)"
    show "\<exists>iIn iOut amt.
                (?tup # tuples) ! m = (st_poolId ((st # steps) ! m), iIn, iOut, amt, balSwapGetUserData)
                \<and> 0 \<le> st_assetInIndex ((st # steps) ! m)
                \<and> o2s (nat (st_assetInIndex ((st # steps) ! m))) = Some iIn
                \<and> 0 \<le> st_assetOutIndex ((st # steps) ! m)
                \<and> o2s (nat (st_assetOutIndex ((st # steps) ! m))) = Some iOut
                \<and> iIn < length (heap s r)
                \<and> to_raw F (st_amount ((st # steps) ! m)) (fst (erc20GetDecimals C (heap s r ! iIn) s))
                     = Inr amt"
    proof (cases m)
      case 0
      then show ?thesis using j by simp
    next
      case (Suc m')
      then have "m' < length steps" using m by simp
      with each show ?thesis unfolding Suc by (simp add: h1 d1)
    qed
  qed
  show ?case
    apply (intro conjI)
      apply (simp add: hs h1)
     apply (simp add: ds d1)
    apply (rule exI [of _ "?tup # tuples"])
    using out acc1 len all by simp
qed

text \<open>
  The encoder returns a call when the assets are distinct, there are as many limits as
  assets, every index of a step is an index of the asset list, and no conversion raises.
\<close>

lemma to_raw_Inr:
  "to_raw F v d = Inr x \<Longrightarrow> \<exists>y. f_of F v = Inr y \<and> f_trunc F (f_mul_pow10 F y d) = Inr x"
  by (auto simp: to_raw_def split: sum.splits)

lemma limits_loop_returns:
  assumes "\<forall>i\<in>set ixs. i < length (heap s r) \<and> (\<exists>j. s2o i = Some j \<and> j < length limits)"
    and conv: "\<forall>v\<in>set limits. \<forall>d. \<exists>x. to_raw F v d = Inr x"
  shows "\<exists>out s'. foldSE (limits_body C F limits s2o r) ixs acc s = (Inr out, s')"
  using assms(1)
proof (induction ixs arbitrary: acc s)
  case Nil
  then show ?case by simp
next
  case (Cons i ixs)
  from Cons.prems obtain j where i: "i < length (heap s r)" and j: "s2o i = Some j" "j < length limits"
    by auto
  define dcm where "dcm = fst (erc20GetDecimals C (heap s r ! i) s)"
  define s1 where "s1 = snd (erc20GetDecimals C (heap s r ! i) s)"
  from conv j(2) obtain x where "to_raw F (limits ! j) dcm = Inr x" by (meson nth_mem)
  then obtain y where y: "f_of F (limits ! j) = Inr y" "f_trunc F (f_mul_pow10 F y dcm) = Inr x"
    by (auto dest: to_raw_Inr)
  have body: "limits_body C F limits s2o r acc i s = (Inr (acc @ [x]), s1)"
    using i j y
    by (simp add: limits_body_def dict_get_def list_get_def case_prod_beta dcm_def s1_def)
  have "\<forall>i\<in>set ixs. i < length (heap s1 r) \<and> (\<exists>j. s2o i = Some j \<and> j < length limits)"
    using Cons.prems by (simp add: s1_def)
  from Cons.IH [OF this, of "acc @ [x]"] show ?case
    by (simp add: body)
qed

lemma swaps_loop_returns:
  assumes "\<forall>st\<in>set steps. 0 \<le> st_assetInIndex st \<and> 0 \<le> st_assetOutIndex st
             \<and> (\<exists>iIn. o2s (nat (st_assetInIndex st)) = Some iIn \<and> iIn < length (heap s r))
             \<and> (\<exists>iOut. o2s (nat (st_assetOutIndex st)) = Some iOut)"
    and conv: "\<forall>st\<in>set steps. \<forall>d. \<exists>x. to_raw F (st_amount st) d = Inr x"
  shows "\<exists>out s'. foldSE (swaps_body C F o2s r) steps acc s = (Inr out, s')"
  using assms
proof (induction steps arbitrary: acc s)
  case Nil
  then show ?case by simp
next
  case (Cons st steps)
  from Cons.prems(1) obtain iIn iOut where
    i: "0 \<le> st_assetInIndex st" "0 \<le> st_assetOutIndex st"
       "o2s (nat (st_assetInIndex st)) = Some iIn" "iIn < length (heap s r)"
       "o2s (nat (st_assetOutIndex st)) = Some iOut"
    by auto
  define dcm where "dcm = fst (erc20GetDecimals C (heap s r ! iIn) s)"
  define s1 where "s1 = snd (erc20GetDecimals C (heap s r ! iIn) s)"
  have "\<forall>d. \<exists>x. to_raw F (st_amount st) d = Inr x" using Cons.prems(2) by simp
  then obtain x where x: "to_raw F (st_amount st) dcm = Inr x" by blast
  have body: "swaps_body C F o2s r acc st s =
      (Inr (acc @ [(st_poolId st, iIn, iOut, x, balSwapGetUserData)]), s1)"
    using i x
    by (simp add: swaps_body_def dict_get_int_def dict_get_def list_get_def case_prod_beta
        dcm_def s1_def)
  have p1: "\<forall>st\<in>set steps. 0 \<le> st_assetInIndex st \<and> 0 \<le> st_assetOutIndex st
             \<and> (\<exists>iIn. o2s (nat (st_assetInIndex st)) = Some iIn \<and> iIn < length (heap s1 r))
             \<and> (\<exists>iOut. o2s (nat (st_assetOutIndex st)) = Some iOut)"
    using Cons.prems(1) by (simp add: s1_def)
  have p2: "\<forall>st\<in>set steps. \<forall>d. \<exists>x. to_raw F (st_amount st) d = Inr x"
    using Cons.prems(2) by simp
  from Cons.IH [OF p1 p2, of "acc @ [(st_poolId st, iIn, iOut, x, balSwapGetUserData)]"] show ?case
    by (simp add: body)
qed

lemma batch_swap_returns:
  assumes d: "distinct (heap s (sd_assets sd))"
    and lim: "length (heap s (sd_assets sd)) \<le> length (sd_limits sd)"
    and idx: "\<forall>st\<in>set (sd_swaps sd).
        0 \<le> st_assetInIndex st \<and> nat (st_assetInIndex st) < length (heap s (sd_assets sd))
      \<and> 0 \<le> st_assetOutIndex st \<and> nat (st_assetOutIndex st) < length (heap s (sd_assets sd))"
    and conv1: "\<forall>v\<in>set (sd_limits sd). \<forall>d. \<exists>x. to_raw F v d = Inr x"
    and conv2: "\<forall>st\<in>set (sd_swaps sd). \<forall>d. \<exists>x. to_raw F (st_amount st) d = Inr x"
  shows "\<exists>call. fst (balCreateFnBatchSwap C F sd s) = Inr call"
proof -
  define r where "r = sd_assets sd"
  define n where "n = length (heap s r)"
  obtain o2s s2o where
    re: "balReorderTokenDicts r (heap s) = (Inr (r, o2s, s2o), list_sort r (heap s))"
    and s2o: "\<forall>i<n. \<exists>j<n. s2o i = Some j"
    and o2s: "\<forall>j<n. \<exists>i<n. o2s j = Some i"
    using reorder_total [where h = "heap s" and tokens = r] d unfolding r_def n_def by blast
  define s1 where "s1 = s\<lparr>heap := list_sort r (heap s)\<rparr>"
  have len1: "length (heap s1 r) = n" by (simp add: s1_def list_sort_def n_def)
  have "\<forall>i\<in>set [0..<n]. i < length (heap s1 r) \<and> (\<exists>j. s2o i = Some j \<and> j < length (sd_limits sd))"
    using s2o lim len1 unfolding r_def [symmetric] n_def [symmetric] by fastforce
  from limits_loop_returns [OF this conv1, of C "[]"] obtain lims s2 where
    run1: "foldSE (limits_body C F (sd_limits sd) s2o r) [0..<n] [] s1 = (Inr lims, s2)"
    by blast
  have h2: "heap s2 = heap s1" using limits_loop [OF run1] by simp
  have "\<forall>st\<in>set (sd_swaps sd). 0 \<le> st_assetInIndex st \<and> 0 \<le> st_assetOutIndex st
             \<and> (\<exists>iIn. o2s (nat (st_assetInIndex st)) = Some iIn \<and> iIn < length (heap s2 r))
             \<and> (\<exists>iOut. o2s (nat (st_assetOutIndex st)) = Some iOut)"
    using idx o2s len1 h2 unfolding r_def [symmetric] n_def [symmetric] by fastforce
  from swaps_loop_returns [OF this conv2, of C "[]"] obtain tuples s3 where
    run2: "foldSE (swaps_body C F o2s r) (sd_swaps sd) [] s2 = (Inr tuples, s3)"
    by blast
  have e1: "foldSE (limits_body C F (sd_limits sd) s2o r) [0..<length (list_sort r (heap s) r)] []
        (s\<lparr>heap := list_sort r (heap s)\<rparr>) = (Inr lims, s2)"
    using run1 len1 by (simp add: s1_def)
  show ?thesis
    unfolding balCreateFnBatchSwap_def r_def [symmetric]
    by (simp add: re e1 run2 Let_def)
qed

lemma sort_example: "sort [''0xBB'', ''0xAA'', ''0xCC''] = [''0xAA'', ''0xBB'', ''0xCC'']"
  by code_simp

lemma upt3: "[0..<3] = [0, 1, 2]"
  by (simp add: upt_rec)

lemma reorder_example:
  "\<exists>o2s s2o. balReorderTokenDicts 0 (heap_empty(0 := [''0xBB'', ''0xAA'', ''0xCC''])) =
     (Inr (0, o2s, s2o), heap_empty(0 := [''0xAA'', ''0xBB'', ''0xCC'']))
   \<and> map o2s [0, 1, 2] = [Some 1, Some 0, Some 2]
   \<and> map s2o [0, 1, 2] = [Some 1, Some 0, Some 2]"
  by (simp add: balReorderTokenDicts_def Let_def list_sort_def sort_example
      tokenAddressToIdx_loop_def tokenAddressToIdx_body_def upt3 reorder_body_def dict_get_def)

lemma batch_swap_example:
  "fst (balCreateFnBatchSwap example_chain int_float (example_swap [10, 20, 30]) example_world)
     = Inr example_call"
  by (simp add: balCreateFnBatchSwap_def balReorderTokenDicts_def Let_def list_sort_def sort_example
      tokenAddressToIdx_loop_def tokenAddressToIdx_body_def upt3 reorder_body_def dict_get_def
      example_swap_def example_world_def world0_def example_chain_def int_float_def
      limits_body_def swaps_body_def dict_get_int_def list_get_def to_raw_def
      erc20GetDecimals_def example_call_def example_funds_def)

text \<open>
  Claim C2. Let the caller's asset list hold no address twice and let
  \<open>balCreateFnBatchSwap\<close> return a call. The asset list of the call is the sorted list in
  checksum form. For every step, the in-index and the out-index of its tuple are the images
  of the step's original indices under \<open>originalIdxToSortedIdx\<close>, and the emitted asset list
  holds at them the checksum form of the addresses that the original indices had in the
  caller's list; its amount is the step's amount in raw units of the in-token. The limit at
  a sorted position \<open>i\<close> is the caller's limit at \<open>sortedIdxToOriginalIdx[i]\<close>, in raw units
  by the decimals of the token at sorted position \<open>i\<close>.
\<close>

theorem batch_swap_encoding:
  assumes d: "distinct (heap s (sd_assets sd))"
    and run: "fst (balCreateFnBatchSwap C F sd s) = Inr call"
  shows "bs_assets call = map (web3_toChecksumAddress C) (sort (heap s (sd_assets sd)))
   \<and> length (bs_swaps call) = length (sd_swaps sd)
   \<and> (\<forall>m<length (sd_swaps sd). \<exists>iIn iOut amt.
         bs_swaps call ! m = (st_poolId (sd_swaps sd ! m), iIn, iOut, amt, balSwapGetUserData)
       \<and> 0 \<le> st_assetInIndex (sd_swaps sd ! m)
       \<and> nat (st_assetInIndex (sd_swaps sd ! m)) < length (heap s (sd_assets sd))
       \<and> 0 \<le> st_assetOutIndex (sd_swaps sd ! m)
       \<and> nat (st_assetOutIndex (sd_swaps sd ! m)) < length (heap s (sd_assets sd))
       \<and> iIn < length (bs_assets call) \<and> iOut < length (bs_assets call)
       \<and> bs_assets call ! iIn =
           web3_toChecksumAddress C (heap s (sd_assets sd) ! nat (st_assetInIndex (sd_swaps sd ! m)))
       \<and> bs_assets call ! iOut =
           web3_toChecksumAddress C (heap s (sd_assets sd) ! nat (st_assetOutIndex (sd_swaps sd ! m)))
       \<and> to_raw F (st_amount (sd_swaps sd ! m))
            (fst (erc20GetDecimals C (heap s (sd_assets sd) ! nat (st_assetInIndex (sd_swaps sd ! m))) s))
           = Inr amt)
   \<and> length (bs_limits call) = length (heap s (sd_assets sd))
   \<and> (\<exists>originalToSorted sortedToOriginal.
         fst (balReorderTokenDicts (sd_assets sd) (heap s))
           = Inr (sd_assets sd, originalToSorted, sortedToOriginal)
       \<and> (\<forall>i<length (heap s (sd_assets sd)). \<exists>j.
             sortedToOriginal i = Some j \<and> j < length (sd_limits sd)
           \<and> to_raw F (sd_limits sd ! j)
                (fst (erc20GetDecimals C (sort (heap s (sd_assets sd)) ! i) s))
               = Inr (bs_limits call ! i)))"
proof -
  define r where "r = sd_assets sd"
  define xs where "xs = heap s r"
  define n where "n = length xs"
  define cs where "cs = web3_toChecksumAddress C"
  obtain o2s s2o where
    re: "balReorderTokenDicts r (heap s) = (Inr (r, o2s, s2o), list_sort r (heap s))"
    and s2o: "\<And>i j. s2o i = Some j \<longleftrightarrow> i < n \<and> j < n \<and> xs ! j = sort xs ! i"
    and o2s: "\<And>j i. o2s j = Some i \<longleftrightarrow> i < n \<and> j < n \<and> xs ! j = sort xs ! i"
    using reorder_char [where h = "heap s" and tokens = r] d
    unfolding xs_def n_def r_def by blast
  define s1 where "s1 = s\<lparr>heap := list_sort r (heap s)\<rparr>"
  have h1: "heap s1 r = sort xs" by (simp add: s1_def list_sort_def xs_def)
  have d1: "\<And>t. fst (erc20GetDecimals C t s1) = fst (erc20GetDecimals C t s)"
    by (simp add: s1_def)
  define L1 where "L1 = foldSE (limits_body C F (sd_limits sd) s2o r) [0..<n] [] s1"
  obtain r1 s2 where L1: "L1 = (r1, s2)" by (cases L1)
  define L2 where "L2 = foldSE (swaps_body C F o2s r) (sd_swaps sd) [] s2"
  obtain r2 s3 where L2: "L2 = (r2, s3)" by (cases L2)
  have unfold: "balCreateFnBatchSwap C F sd s =
      (case r1 of
         Inl e \<Rightarrow> (Inl e, s2)
       | Inr reorderedLimits \<Rightarrow>
           (case r2 of
              Inl e \<Rightarrow> (Inl e, s3)
            | Inr swapsTuples \<Rightarrow>
                (Inr \<lparr>bs_kind = sd_kind sd, bs_swaps = swapsTuples,
                      bs_assets = map cs (heap s2 r),
                      bs_funds = (cs (fd_sender (sd_funds sd)), fd_fromInternalBalance (sd_funds sd),
                                  cs (fd_recipient (sd_funds sd)), fd_toInternalBalance (sd_funds sd)),
                      bs_limits = reorderedLimits, bs_deadline = sd_deadline sd\<rparr>, s3)))"
  proof -
    have "length (list_sort r (heap s) r) = n" by (simp add: list_sort_def n_def xs_def)
    then have e1: "foldSE (limits_body C F (sd_limits sd) s2o r) [0..<length (list_sort r (heap s) r)] []
        (s\<lparr>heap := list_sort r (heap s)\<rparr>) = (r1, s2)"
      using L1 by (simp add: L1_def s1_def)
    have e2: "foldSE (swaps_body C F o2s r) (sd_swaps sd) [] s2 = (r2, s3)"
      using L2 by (simp add: L2_def)
    show ?thesis
      unfolding balCreateFnBatchSwap_def r_def [symmetric]
      by (simp add: re e1 e2 Let_def cs_def split: sum.splits)
  qed
  from run unfold obtain lims tuples where r1: "r1 = Inr lims" and r2: "r2 = Inr tuples"
    and call: "call = \<lparr>bs_kind = sd_kind sd, bs_swaps = tuples,
                      bs_assets = map cs (heap s2 r),
                      bs_funds = (cs (fd_sender (sd_funds sd)), fd_fromInternalBalance (sd_funds sd),
                                  cs (fd_recipient (sd_funds sd)), fd_toInternalBalance (sd_funds sd)),
                      bs_limits = lims, bs_deadline = sd_deadline sd\<rparr>"
    by (auto split: sum.splits)
  have run1: "foldSE (limits_body C F (sd_limits sd) s2o r) [0..<n] [] s1 = (Inr lims, s2)"
    using L1 r1 by (simp add: L1_def)
  have run2: "foldSE (swaps_body C F o2s r) (sd_swaps sd) [] s2 = (Inr tuples, s3)"
    using L2 r2 by (simp add: L2_def)
  from limits_loop [OF run1] have
    h2: "heap s2 = heap s1" and d2: "\<And>t. fst (erc20GetDecimals C t s2) = fst (erc20GetDecimals C t s1)"
    and llen: "length lims = n"
    and lim: "\<And>i. i < n \<Longrightarrow> \<exists>j. s2o i = Some j \<and> j < length (sd_limits sd)
                \<and> to_raw F (sd_limits sd ! j) (fst (erc20GetDecimals C (heap s1 r ! i) s1)) = Inr (lims ! i)"
    by auto
  from swaps_loop [OF run2] have
    tlen: "length tuples = length (sd_swaps sd)"
    and tup: "\<And>m. m < length (sd_swaps sd) \<Longrightarrow> \<exists>iIn iOut amt.
                tuples ! m = (st_poolId (sd_swaps sd ! m), iIn, iOut, amt, balSwapGetUserData)
                \<and> 0 \<le> st_assetInIndex (sd_swaps sd ! m)
                \<and> o2s (nat (st_assetInIndex (sd_swaps sd ! m))) = Some iIn
                \<and> 0 \<le> st_assetOutIndex (sd_swaps sd ! m)
                \<and> o2s (nat (st_assetOutIndex (sd_swaps sd ! m))) = Some iOut
                \<and> iIn < length (heap s2 r)
                \<and> to_raw F (st_amount (sd_swaps sd ! m)) (fst (erc20GetDecimals C (heap s2 r ! iIn) s2))
                     = Inr amt"
    by auto
  have assets: "bs_assets call = map cs (sort xs)"
    by (simp add: call h2 h1)
  have slen: "length (sort xs) = n" by (simp add: n_def)
  have steps: "\<forall>m<length (sd_swaps sd). \<exists>iIn iOut amt.
         bs_swaps call ! m = (st_poolId (sd_swaps sd ! m), iIn, iOut, amt, balSwapGetUserData)
       \<and> 0 \<le> st_assetInIndex (sd_swaps sd ! m)
       \<and> nat (st_assetInIndex (sd_swaps sd ! m)) < n
       \<and> 0 \<le> st_assetOutIndex (sd_swaps sd ! m)
       \<and> nat (st_assetOutIndex (sd_swaps sd ! m)) < n
       \<and> iIn < length (bs_assets call) \<and> iOut < length (bs_assets call)
       \<and> bs_assets call ! iIn = cs (xs ! nat (st_assetInIndex (sd_swaps sd ! m)))
       \<and> bs_assets call ! iOut = cs (xs ! nat (st_assetOutIndex (sd_swaps sd ! m)))
       \<and> to_raw F (st_amount (sd_swaps sd ! m))
            (fst (erc20GetDecimals C (xs ! nat (st_assetInIndex (sd_swaps sd ! m))) s)) = Inr amt"
  proof (intro allI impI)
    fix m assume "m < length (sd_swaps sd)"
    from tup [OF this] obtain iIn iOut amt where
      t: "tuples ! m = (st_poolId (sd_swaps sd ! m), iIn, iOut, amt, balSwapGetUserData)"
      and i0: "0 \<le> st_assetInIndex (sd_swaps sd ! m)"
      and iin: "o2s (nat (st_assetInIndex (sd_swaps sd ! m))) = Some iIn"
      and o0: "0 \<le> st_assetOutIndex (sd_swaps sd ! m)"
      and oout: "o2s (nat (st_assetOutIndex (sd_swaps sd ! m))) = Some iOut"
      and amt: "to_raw F (st_amount (sd_swaps sd ! m)) (fst (erc20GetDecimals C (heap s2 r ! iIn) s2)) = Inr amt"
      by blast
    from iin o2s have a: "iIn < n" "nat (st_assetInIndex (sd_swaps sd ! m)) < n"
      "xs ! nat (st_assetInIndex (sd_swaps sd ! m)) = sort xs ! iIn" by blast+
    from oout o2s have b: "iOut < n" "nat (st_assetOutIndex (sd_swaps sd ! m)) < n"
      "xs ! nat (st_assetOutIndex (sd_swaps sd ! m)) = sort xs ! iOut" by blast+
    have amt': "to_raw F (st_amount (sd_swaps sd ! m))
            (fst (erc20GetDecimals C (xs ! nat (st_assetInIndex (sd_swaps sd ! m))) s)) = Inr amt"
      using amt by (simp add: d2 d1 h2 h1 a(3))
    have "bs_assets call ! iIn = cs (xs ! nat (st_assetInIndex (sd_swaps sd ! m)))"
      "bs_assets call ! iOut = cs (xs ! nat (st_assetOutIndex (sd_swaps sd ! m)))"
      using a b slen by (simp_all add: assets)
    moreover have "bs_swaps call ! m = (st_poolId (sd_swaps sd ! m), iIn, iOut, amt, balSwapGetUserData)"
      using t by (simp add: call)
    moreover have "iIn < length (bs_assets call)" "iOut < length (bs_assets call)"
      using a(1) b(1) slen by (simp_all add: assets)
    ultimately show "\<exists>iIn iOut amt.
         bs_swaps call ! m = (st_poolId (sd_swaps sd ! m), iIn, iOut, amt, balSwapGetUserData)
       \<and> 0 \<le> st_assetInIndex (sd_swaps sd ! m)
       \<and> nat (st_assetInIndex (sd_swaps sd ! m)) < n
       \<and> 0 \<le> st_assetOutIndex (sd_swaps sd ! m)
       \<and> nat (st_assetOutIndex (sd_swaps sd ! m)) < n
       \<and> iIn < length (bs_assets call) \<and> iOut < length (bs_assets call)
       \<and> bs_assets call ! iIn = cs (xs ! nat (st_assetInIndex (sd_swaps sd ! m)))
       \<and> bs_assets call ! iOut = cs (xs ! nat (st_assetOutIndex (sd_swaps sd ! m)))
       \<and> to_raw F (st_amount (sd_swaps sd ! m))
            (fst (erc20GetDecimals C (xs ! nat (st_assetInIndex (sd_swaps sd ! m))) s)) = Inr amt"
      using i0 o0 a(2) b(2) amt' by blast
  qed
  have limits: "\<forall>i<n. \<exists>j. s2o i = Some j \<and> j < length (sd_limits sd)
           \<and> to_raw F (sd_limits sd ! j) (fst (erc20GetDecimals C (sort xs ! i) s)) = Inr (bs_limits call ! i)"
  proof (intro allI impI)
    fix i assume "i < n"
    from lim [OF this] show "\<exists>j. s2o i = Some j \<and> j < length (sd_limits sd)
           \<and> to_raw F (sd_limits sd ! j) (fst (erc20GetDecimals C (sort xs ! i) s)) = Inr (bs_limits call ! i)"
      by (simp add: h1 d1 call)
  qed
  have refst: "fst (balReorderTokenDicts r (heap s)) = Inr (r, o2s, s2o)"
    by (simp add: re)
  have "bs_assets call = map cs (sort xs)
    \<and> length (bs_swaps call) = length (sd_swaps sd)
    \<and> (\<forall>m<length (sd_swaps sd). \<exists>iIn iOut amt.
         bs_swaps call ! m = (st_poolId (sd_swaps sd ! m), iIn, iOut, amt, balSwapGetUserData)
       \<and> 0 \<le> st_assetInIndex (sd_swaps sd ! m)
       \<and> nat (st_assetInIndex (sd_swaps sd ! m)) < n
       \<and> 0 \<le> st_assetOutIndex (sd_swaps sd ! m)
       \<and> nat (st_assetOutIndex (sd_swaps sd ! m)) < n
       \<and> iIn < length (bs_assets call) \<and> iOut < length (bs_assets call)
       \<and> bs_assets call ! iIn = cs (xs ! nat (st_assetInIndex (sd_swaps sd ! m)))
       \<and> bs_assets call ! iOut = cs (xs ! nat (st_assetOutIndex (sd_swaps sd ! m)))
       \<and> to_raw F (st_amount (sd_swaps sd ! m))
            (fst (erc20GetDecimals C (xs ! nat (st_assetInIndex (sd_swaps sd ! m))) s)) = Inr amt)
    \<and> length (bs_limits call) = n
    \<and> (fst (balReorderTokenDicts r (heap s)) = Inr (r, o2s, s2o)
       \<and> (\<forall>i<n. \<exists>j. s2o i = Some j \<and> j < length (sd_limits sd)
           \<and> to_raw F (sd_limits sd ! j) (fst (erc20GetDecimals C (sort xs ! i) s)) = Inr (bs_limits call ! i)))"
    using assets steps limits refst llen tlen by (simp add: call)
  then show ?thesis
    unfolding xs_def n_def r_def cs_def by (intro conjI exI) (elim conjE, assumption)+
qed

theorem batch_swap_encoding_witness:
  "distinct (heap example_world (sd_assets (example_swap [10, 20, 30])))
   \<and> fst (balCreateFnBatchSwap example_chain int_float (example_swap [10, 20, 30]) example_world)
       = Inr example_call
   \<and> bs_assets example_call = [''0xAA'', ''0xBB'', ''0xCC'']
   \<and> (\<exists>iIn iOut amt.
         bs_swaps example_call ! 0 = (''p'', iIn, iOut, amt, balSwapGetUserData)
       \<and> bs_assets example_call ! iIn = ''0xBB''
       \<and> bs_assets example_call ! iOut = ''0xAA'')
   \<and> length (bs_limits example_call) = 3
   \<and> (\<exists>originalToSorted sortedToOriginal.
         fst (balReorderTokenDicts 0 (heap example_world)) = Inr (0, originalToSorted, sortedToOriginal)
       \<and> (\<forall>i<3. \<exists>j. sortedToOriginal i = Some j \<and> j < 3
           \<and> to_raw int_float ([10, 20, 30] ! j) 2 = Inr (bs_limits example_call ! i)))"
proof -
  have d: "distinct (heap example_world (sd_assets (example_swap [10, 20, 30])))"
    by (simp add: example_world_def example_swap_def world0_def)
  have run: "fst (balCreateFnBatchSwap example_chain int_float (example_swap [10, 20, 30]) example_world)
       = Inr example_call"
    by (rule batch_swap_example)
  note T = batch_swap_encoding [OF d run]
  have xs: "heap example_world (sd_assets (example_swap [10, 20, 30])) = [''0xBB'', ''0xAA'', ''0xCC'']"
    and cs: "web3_toChecksumAddress example_chain = (\<lambda>a. a)"
    and dec: "\<And>t. fst (erc20GetDecimals example_chain t example_world) = 2"
    and sw: "sd_swaps (example_swap [10, 20, 30]) =
         [\<lparr>st_poolId = ''p'', st_assetInIndex = 0, st_assetOutIndex = 1, st_amount = 5\<rparr>]"
    and li: "sd_limits (example_swap [10, 20, 30]) = [10, 20, 30]"
    and r: "sd_assets (example_swap [10, 20, 30]) = 0"
    and xs0: "heap example_world 0 = [''0xBB'', ''0xAA'', ''0xCC'']"
    by (simp_all add: example_world_def example_swap_def world0_def example_chain_def
        erc20GetDecimals_def)
  have a: "bs_assets example_call = [''0xAA'', ''0xBB'', ''0xCC'']"
    by (simp add: example_call_def)
  have b: "\<exists>iIn iOut amt.
         bs_swaps example_call ! 0 = (''p'', iIn, iOut, amt, balSwapGetUserData)
       \<and> bs_assets example_call ! iIn = ''0xBB''
       \<and> bs_assets example_call ! iOut = ''0xAA''"
    using T [THEN conjunct2, THEN conjunct2, THEN conjunct1, rule_format, of 0]
    unfolding xs cs sw by auto
  have c: "length (bs_limits example_call) = 3"
    using T [THEN conjunct2, THEN conjunct2, THEN conjunct2, THEN conjunct1] unfolding xs by simp
  have e: "\<exists>originalToSorted sortedToOriginal.
         fst (balReorderTokenDicts 0 (heap example_world)) = Inr (0, originalToSorted, sortedToOriginal)
       \<and> (\<forall>i<3. \<exists>j. sortedToOriginal i = Some j \<and> j < 3
           \<and> to_raw int_float ([10, 20, 30] ! j) 2 = Inr (bs_limits example_call ! i))"
    using T [THEN conjunct2, THEN conjunct2, THEN conjunct2, THEN conjunct2]
    unfolding dec li r by (simp add: xs0 numeral_3_eq_3)
  show ?thesis
    using d run a b c e by blast
qed

end
